theory Spec2Isabelle
  imports Complex_Main
begin

section \<open>Python values shared by the embedding\<close>

text \<open>
  Exceptions are values. Each constructor is one of the exception classes that the
  modelled functions raise, carrying the message; all of them are subclasses of Python's
  \<open>Exception\<close>. \<open>exn_name\<close> is the class name. A function that may raise returns
  \<open>pyexn + 'a\<close>, with \<open>Inl\<close> for the exception.

  A string is the list of its characters, a character being a code point below 256.
  White space is what Python takes for it among these. Lower case is taken of the ASCII
  letters only: a lowered string is only compared with ASCII text, where that decides as
  \<open>str.lower\<close> does, and \<open>LIKE\<close> in SQLite folds the ASCII letters only.
\<close>

datatype pyexn =
    AssertionError string
  | KeyError string
  | RuntimeError string
  | ValueError string
  | IndexError string
  | ZeroDivisionError string
  | UnsupportedFeatureError string

fun exn_name :: "pyexn \<Rightarrow> string" where
  "exn_name (AssertionError m) = ''AssertionError''"
| "exn_name (KeyError m) = ''KeyError''"
| "exn_name (RuntimeError m) = ''RuntimeError''"
| "exn_name (ValueError m) = ''ValueError''"
| "exn_name (IndexError m) = ''IndexError''"
| "exn_name (ZeroDivisionError m) = ''ZeroDivisionError''"
| "exn_name (UnsupportedFeatureError m) = ''UnsupportedFeatureError''"

definition ascii_lower :: "char \<Rightarrow> char" where
  "ascii_lower c =
     (let n = (of_char c :: nat) in if 65 \<le> n \<and> n \<le> 90 then char_of (n + 32) else c)"

definition str_lower :: "string \<Rightarrow> string" where
  "str_lower s = map ascii_lower s"

text \<open>\<open>s.startswith(p)\<close> and \<open>sub in s\<close>.\<close>

definition startswith :: "string \<Rightarrow> string \<Rightarrow> bool" where
  "startswith s p = (take (length p) s = p)"

fun str_contains :: "string \<Rightarrow> string \<Rightarrow> bool" where
  "str_contains [] sub = (sub = [])"
| "str_contains (c # cs) sub = (startswith (c # cs) sub \<or> str_contains cs sub)"

text \<open>
  \<open>s.strip()\<close> removes the characters for which \<open>str.isspace\<close> holds: 9 to 13, 28 to
  32, 133 and 160.
\<close>

definition is_space :: "char \<Rightarrow> bool" where
  "is_space c =
     (let n = (of_char c :: nat)
      in (9 \<le> n \<and> n \<le> 13) \<or> (28 \<le> n \<and> n \<le> 32) \<or> n = 133 \<or> n = 160)"

definition str_strip :: "string \<Rightarrow> string" where
  "str_strip s = rev (dropWhile is_space (rev (dropWhile is_space s)))"

text \<open>
  \<open>s.replace(old, new)\<close>: every occurrence of \<open>old\<close>, found from the left and not
  overlapping, is replaced. The source calls it with a non-empty \<open>old\<close> only; for an
  empty \<open>old\<close> the model returns \<open>s\<close>.
\<close>

function str_replace :: "string \<Rightarrow> string \<Rightarrow> string \<Rightarrow> string" where
  "str_replace old new [] = []"
| "str_replace old new (c # cs) =
     (if old \<noteq> [] \<and> startswith (c # cs) old
      then new @ str_replace old new (drop (length old) (c # cs))
      else c # str_replace old new cs)"
  by pat_completeness auto
termination
  by (relation "measure (\<lambda>(old, new, s). length s)") (auto simp: startswith_def)

text \<open>
  \<open>int(s)\<close> on a string, base ten: surrounding white space, an optional sign, then
  decimal digits that single underscores may separate. \<open>None\<close> is the \<open>ValueError\<close>.
  The white space that \<open>int\<close> skips is not that of \<open>str.strip\<close>: it is the characters
  9 to 13, 32, 133 and 160, without the separators 28 to 31, so that \<open>int('\x1c1')\<close> is
  a \<open>ValueError\<close>. A literal of more than \<open>int_max_str_digits\<close> digits is a
  \<open>ValueError\<close> too (Python 3.11, with the default limit).
\<close>

definition is_int_space :: "char \<Rightarrow> bool" where
  "is_int_space c =
     (let n = (of_char c :: nat) in (9 \<le> n \<and> n \<le> 13) \<or> n = 32 \<or> n = 133 \<or> n = 160)"

definition is_digit :: "char \<Rightarrow> bool" where
  "is_digit c = (let n = (of_char c :: nat) in 48 \<le> n \<and> n \<le> 57)"

definition digit_val :: "char \<Rightarrow> int" where
  "digit_val c = int (of_char c) - 48"

fun digits_ok :: "string \<Rightarrow> bool" where
  "digits_ok [] = False"
| "digits_ok [c] = is_digit c"
| "digits_ok (c # d # cs) =
     (is_digit c \<and> (if d = CHR ''_'' then digits_ok cs else digits_ok (d # cs)))"

definition int_max_str_digits :: nat where
  "int_max_str_digits = 4300"

text \<open>The sign and what follows it, once the white space around the text is dropped.\<close>

definition int_literal :: "string \<Rightarrow> bool \<times> string" where
  "int_literal s =
     (let t = rev (dropWhile is_int_space (rev (dropWhile is_int_space s)))
      in (t \<noteq> [] \<and> hd t = CHR ''-'',
          if t \<noteq> [] \<and> (hd t = CHR ''-'' \<or> hd t = CHR ''+'') then tl t else t))"

definition py_int :: "string \<Rightarrow> int option" where
  "py_int s =
     (let (neg, body) = int_literal s
      in if digits_ok body \<and> length (filter is_digit body) \<le> int_max_str_digits
         then Some ((if neg then - 1 else 1) *
                    foldl (\<lambda>a c. 10 * a + digit_val c) 0 (filter is_digit body))
         else None)"

text \<open>\<open>str(i)\<close> of an integer.\<close>

function show_nat :: "nat \<Rightarrow> string" where
  "show_nat n =
     (if n < 10 then [char_of (48 + n)] else show_nat (n div 10) @ [char_of (48 + n mod 10)])"
  by pat_completeness auto
termination
  by (relation "measure id") auto

declare show_nat.simps [simp del]

definition show_int :: "int \<Rightarrow> string" where
  "show_int i = (if i < 0 then CHR ''-'' # show_nat (nat (- i)) else show_nat (nat i))"

text \<open>
  The \<open>ValueError\<close> of \<open>int(s)\<close>. The digits are counted before the end of the text
  is looked at, so that too long a run of digits is reported even when something that is
  no digit follows it. The other message quotes the text as \<open>repr\<close> does; the model
  writes the text between two quotes, which is its \<open>repr\<close> when it is made of printable
  ASCII characters without quote and backslash.
\<close>

definition int_value_error :: "string \<Rightarrow> pyexn" where
  "int_value_error s =
     (let run = takeWhile (\<lambda>c. is_digit c \<or> c = CHR ''_'') (snd (int_literal s));
          n = length (filter is_digit run)
      in if digits_ok run \<and> int_max_str_digits < n
         then ValueError (''Exceeds the limit (4300 digits) for integer string conversion: ''
                @ ''value has '' @ show_nat n
                @ '' digits; use sys.set_int_max_str_digits() to increase the limit'')
         else ValueError (''invalid literal for int() with base 10: ''
                @ [CHR 0x27] @ s @ [CHR 0x27]))"

text \<open>
  Running a list of fallible steps in order and stopping at the first exception, as a
  loop that raises does.
\<close>

fun collect :: "('e + 'a) list \<Rightarrow> 'e + 'a list" where
  "collect [] = Inr []"
| "collect (Inl e # rs) = Inl e"
| "collect (Inr x # rs) = (case collect rs of Inl e \<Rightarrow> Inl e | Inr xs \<Rightarrow> Inr (x # xs))"

section \<open>Hydrofabric schema generation: \<open>NgenBase._hf_version\<close>\<close>

datatype HFVersion = HF_2_0 | HF_2_1 | HF_2_2

text \<open>
  The query selects the names of the tables matching \<open>LIKE 'flow%'\<close>; SQLite's
  \<open>LIKE\<close> ignores the case of ASCII letters. The argument of \<open>hf_version\<close> is the
  list of table names of the geopackage; \<open>flow_tables\<close> is the Python set \<open>values\<close>.
  The \<open>KeyError\<close> message ends with the rendering of that set, which is left out.
\<close>

definition two_tables_expected :: string where
  "two_tables_expected =
     ''expect at least two table names that start with '' @ [CHR 0x27] @ ''flow'' @ [CHR 0x27]"

definition sql_like_flow :: "string \<Rightarrow> bool" where
  "sql_like_flow n = (str_lower (take 4 n) = ''flow'')"

definition flow_tables :: "string list \<Rightarrow> string set" where
  "flow_tables tables = set (filter sql_like_flow tables)"

definition hf_version :: "string list \<Rightarrow> pyexn + HFVersion" where
  "hf_version tables =
     (let values = flow_tables tables in
      if \<not> 2 \<le> card values
        then Inl (AssertionError two_tables_expected)
      else if {''flowpaths'', ''flowpath_attributes''} = values then Inr HF_2_0
      else if {''flowlines'', ''flowpath-attributes''} = values then Inr HF_2_1
      else if {''flowpaths'', ''flowpath-attributes''} = values then Inr HF_2_2
      else Inl (KeyError ''could not determine HF version. debug information: ''))"

section \<open>Validation of the configuration: \<open>NgenBase._validate_model\<close>\<close>

text \<open>
  Points in time are integers (seconds since the epoch), durations are seconds. Of the
  realization, the fields that the modelled functions read are kept; a path is its string.
\<close>

type_synonym path = string

record Time =
  start_time :: int
  end_time :: int
  output_interval :: int

record NgenRealization =
  time :: Time
  output_root :: "path option"

text \<open>The dictionary \<open>values\<close> of the root validator; a missing key reads as \<open>None\<close>.\<close>

record ValidatorValues =
  hydrofabric :: "path option"
  catchments :: "path option"
  nexus :: "path option"
  crosswalk :: "path option"
  ngen_realization :: "NgenRealization option"

text \<open>The deprecation warning of \<open>_verify_hydrofabric\<close> has no effect on the result.\<close>

definition verify_hydrofabric :: "ValidatorValues \<Rightarrow> pyexn + unit" where
  "verify_hydrofabric values =
     (if hydrofabric values = None \<and> catchments values = None \<and> nexus values = None
         \<and> crosswalk values = None
      then Inl (ValueError (''Must provide a geopackage input with the hydrofabric key'' @
                            ''or proide catchment, nexus, and crosswalk geojson files.''))
      else Inr ())"

definition verify_ngen_realization :: "NgenRealization option \<Rightarrow> pyexn + unit" where
  "verify_ngen_realization realization =
     (case realization of
        None \<Rightarrow> Inr ()
      | Some r \<Rightarrow>
          if output_root r \<noteq> None
          then Inl (UnsupportedFeatureError
                 (''ngen realization `output_root` field is not supported by ngen.cal. '' @
                  ''will be removed in future; see https://github.com/NOAA-OWP/ngen-cal/issues/150''))
          else Inr ())"

definition validate_model :: "ValidatorValues \<Rightarrow> pyexn + ValidatorValues" where
  "validate_model values =
     (case verify_hydrofabric values of
        Inl e \<Rightarrow> Inl e
      | Inr u \<Rightarrow>
          (case verify_ngen_realization (ngen_realization values) of
             Inl e \<Rightarrow> Inl e
           | Inr u' \<Rightarrow> Inr values))"

text \<open>
  Modelled from the spec: whether an assignment to a field of the model runs the
  validators again. In \<open>pydantic\<close> that is the setting \<open>validate_assignment\<close> of the
  configuration of the model class; \<open>NgenBase\<close> does not set it and inherits it from the
  class \<open>ModelExec\<close> (\<open>model.py\<close>), which is not among the sources. The specification
  says of the realization file, which \<open>NgenBase.__init__\<close> reads and assigns to the field
  \<open>ngen_realization\<close>, that ``field \<open>output_root\<close> being set is an unsupported
  configuration and is rejected at load time'': the assignment is validated.
\<close>

definition validate_assignment :: bool where
  "validate_assignment = True"

text \<open>
  \<open>NgenBase.__init__\<close>. The keyword arguments are validated first, which runs the root
  validators (\<open>pydantic\<close> reports a \<open>ValueError\<close>, \<open>TypeError\<close> or \<open>AssertionError\<close> of a
  validator inside its own \<open>ValidationError\<close>; the model keeps the exception that the
  validator raises). Then the realization file is copied, the plugins are registered and
  the hydrofabric is read: \<open>prepare\<close> is the outcome of these steps, which can fail on
  their own. Then the realization file is read and parsed, with the outcome \<open>parse\<close>,
  and the realization is assigned to the field \<open>ngen_realization\<close>; when assignments are
  validated (the first argument), the validators run again on the updated values.
\<close>

definition ngen_base_init ::
  "bool \<Rightarrow> ValidatorValues \<Rightarrow> (ValidatorValues \<Rightarrow> pyexn + unit)
     \<Rightarrow> (ValidatorValues \<Rightarrow> pyexn + NgenRealization) \<Rightarrow> pyexn + ValidatorValues" where
  "ngen_base_init validated kwargs prepare parse =
     (case validate_model kwargs of
        Inl e \<Rightarrow> Inl e
      | Inr values \<Rightarrow>
          (case prepare values of
             Inl e \<Rightarrow> Inl e
           | Inr u \<Rightarrow>
               (case parse values of
                  Inl e \<Rightarrow> Inl e
                | Inr from_file \<Rightarrow>
                    if validated
                    then validate_model (values\<lparr>ngen_realization := Some from_file\<rparr>)
                    else Inr (values\<lparr>ngen_realization := Some from_file\<rparr>))))"

text \<open>
  Clearing of the transient routing output at the end of \<open>update_config\<close>: the files of
  the directory that match \<open>*NEXOUT.parquet\<close> are removed. The argument is the list of
  the file names of the directory, the result the names that remain; when no name matches,
  nothing is removed and nothing is raised.
\<close>

definition endswith :: "string \<Rightarrow> string \<Rightarrow> bool" where
  "endswith s p = (length p \<le> length s \<and> drop (length s - length p) s = p)"

definition clear_nexout :: "string list \<Rightarrow> string list" where
  "clear_nexout names = filter (\<lambda>n. \<not> endswith n ''NEXOUT.parquet'') names"

section \<open>Detection of the routing output format\<close>

text \<open>
  \<open>Path.name\<close> is the last component of the path (\<open>pathlib\<close> drops empty and
  single-dot components); \<open>Path.suffix\<close> is the part of the name from its last dot,
  unless that dot is the first or the last character of the name.
\<close>

fun split_on :: "char \<Rightarrow> string \<Rightarrow> string list" where
  "split_on d [] = [[]]"
| "split_on d (c # cs) =
     (if c = d then [] # split_on d cs
      else (case split_on d cs of [] \<Rightarrow> [[c]] | w # ws \<Rightarrow> (c # w) # ws))"

definition path_name :: "path \<Rightarrow> string" where
  "path_name p =
     (let parts = filter (\<lambda>c. c \<noteq> [] \<and> c \<noteq> ''.'') (split_on CHR ''/'' p)
      in if parts = [] then [] else last parts)"

definition rfind :: "char \<Rightarrow> string \<Rightarrow> int" where
  "rfind c s =
     (case filter (\<lambda>i. s ! i = c) (rev [0 ..< length s]) of
        [] \<Rightarrow> - 1
      | i # is \<Rightarrow> int i)"

definition path_suffix :: "path \<Rightarrow> string" where
  "path_suffix p =
     (let name = path_name p; i = rfind CHR ''.'' name
      in if 0 < i \<and> i < int (length name) - 1 then drop (nat i) name else [])"

text \<open>
  The five parsers that the factory can select. Building the parser (reading the whole
  file with \<open>pandas\<close> or \<open>xarray\<close>) is a separate step, see \<open>load\<close> below; here the
  result is the parser that was selected.
\<close>

datatype OutputFormat =
    CsvOutputV1
  | StreamOutputCsvV1
  | StreamOutputCsvV2
  | StreamOutputNetcdfV1
  | StreamOutputParquetV1

text \<open>
  \<open>_factory_handler_csv\<close>: \<open>content\<close> is the text of the file. \<open>readline\<close> ends at the
  first line break. The first pattern is the text \<^verbatim>\<open>,"(0, 'q')"\<close>.
\<close>

definition readline :: "string \<Rightarrow> string" where
  "readline content = takeWhile (\<lambda>c. c \<noteq> CHR 0x0A \<and> c \<noteq> CHR 0x0D) content"

definition csv_v1_prefix :: string where
  "csv_v1_prefix =
     [CHR '','', CHR 0x22] @ ''(0, '' @ [CHR 0x27] @ ''q'' @ [CHR 0x27] @ '')'' @ [CHR 0x22]"

definition factory_handler_csv :: "path \<Rightarrow> string \<Rightarrow> pyexn + OutputFormat" where
  "factory_handler_csv filepath content =
     (let header = str_strip (readline content) in
      if startswith header csv_v1_prefix then Inr CsvOutputV1
      else if str_contains header ''t0'' then Inr StreamOutputCsvV1
      else if str_contains header ''current_time'' then Inr StreamOutputCsvV2
      else Inl (RuntimeError (''could not parse t-route csv output file: '' @ filepath)))"

text \<open>\<open>_output_handler_factory\<close>; \<open>read_text\<close> gives the text of a file.\<close>

definition output_handler_factory :: "(path \<Rightarrow> string) \<Rightarrow> path \<Rightarrow> pyexn + OutputFormat" where
  "output_handler_factory read_text output_file =
     (let filetype = str_lower (path_suffix output_file) in
      if filetype = ''.csv'' then factory_handler_csv output_file (read_text output_file)
      else if filetype = ''.nc'' then Inr StreamOutputNetcdfV1
      else if filetype = ''.parquet'' then Inr StreamOutputParquetV1
      else Inl (RuntimeError
                 (''unsupported t-route output filetype: '' @ path_suffix output_file)))"

section \<open>Extraction of the simulated flow: \<open>TrouteOutput.get_output\<close>\<close>

text \<open>
  A \<open>pandas\<close> series is the list of its entries in index order: the time stamp and the
  value, \<open>None\<close> being \<open>NaN\<close>. The values are of any type with an addition; the rounding
  of floating-point addition is not modelled. The name of the series is not kept.
\<close>

type_synonym 'v series = "(int \<times> 'v option) list"

fun nan_add :: "'v::plus option \<Rightarrow> 'v option \<Rightarrow> 'v option" where
  "nan_add (Some a) (Some b) = Some (a + b)"
| "nan_add a b = None"

definition series_at :: "'v series \<Rightarrow> int \<Rightarrow> 'v option" where
  "series_at s t = (case map_of s t of None \<Rightarrow> None | Some v \<Rightarrow> v)"

text \<open>
  \<open>ds += flows\<close>: \<open>pandas\<close> adds the values found under the same label and keeps the
  index of \<open>ds\<close>; a label of \<open>ds\<close> that \<open>flows\<close> lacks gets \<open>NaN\<close>. The labels of a
  series are taken to be unique.
\<close>

definition series_iadd :: "'v::plus series \<Rightarrow> 'v series \<Rightarrow> 'v series" where
  "series_iadd ds flows = map (\<lambda>(t, v). (t, nan_add v (series_at flows t))) ds"

text \<open>
  \<open>ds.loc[a:b]\<close> with two time stamps, as \<open>pandas\<close> computes it
  (\<open>Index.slice_locs\<close> and \<open>Index.get_slice_bound\<close>): each bound becomes a position in
  the index and the entries between the two positions are the slice. A bound that is a
  label of the index stands for the position of that label, the first one for the left
  bound and the one after the last for the right bound; when the label occurs several
  times, the occurrences must be next to each other, else it is a \<open>KeyError\<close>. A bound
  that is no label of the index is looked up by bisection, which needs an increasing or a
  decreasing index, else it is a \<open>KeyError\<close>. The messages of the two errors hold the
  label as \<open>pandas\<close> prints it; the model writes the number of seconds.
\<close>

definition first_pos :: "int \<Rightarrow> int list \<Rightarrow> nat" where
  "first_pos x idx = length (takeWhile (\<lambda>t. t \<noteq> x) idx)"

definition last_pos :: "int \<Rightarrow> int list \<Rightarrow> nat" where
  "last_pos x idx = length idx - length (takeWhile (\<lambda>t. t \<noteq> x) (rev idx))"

definition slice_bound :: "bool \<Rightarrow> int \<Rightarrow> int list \<Rightarrow> pyexn + nat" where
  "slice_bound right x idx =
     (if x \<in> set idx
      then if last_pos x idx - first_pos x idx = length (filter (\<lambda>t. t = x) idx)
           then Inr (if right then last_pos x idx else first_pos x idx)
           else Inl (KeyError (''Cannot get '' @ (if right then ''right'' else ''left'')
                               @ '' slice bound for non-unique label: '' @ show_int x))
      else if sorted idx then Inr (length (filter (\<lambda>t. t < x) idx))
      else if sorted (rev idx) then Inr (length (filter (\<lambda>t. x < t) idx))
      else Inl (KeyError (show_int x)))"

definition loc_slice :: "int \<Rightarrow> int \<Rightarrow> 'v series \<Rightarrow> pyexn + 'v series" where
  "loc_slice a b ds =
     (case slice_bound False a (map fst ds) of
        Inl e \<Rightarrow> Inl e
      | Inr i \<Rightarrow>
          (case slice_bound True b (map fst ds) of
             Inl e \<Rightarrow> Inl e
           | Inr j \<Rightarrow> Inr (drop i (take j ds))))"


text \<open>
  \<open>ds.resample("1h").first()\<close>: the entries are put in the order of their time stamps
  (\<open>pandas\<close> sorts an index that is not increasing, with a stable sort); then there is
  one entry for every hour from the hour of the least time stamp to the hour of the
  greatest, labelled with the start of the hour; its value is the first value of the hour
  that is not \<open>NaN\<close>, and \<open>NaN\<close> when there is none. \<open>hours_of\<close> is the first hour and
  the number of hours after it.
\<close>

definition hour_floor :: "int \<Rightarrow> int" where
  "hour_floor t = (t div 3600) * 3600"

fun first_valid :: "'v option list \<Rightarrow> 'v option" where
  "first_valid [] = None"
| "first_valid (None # vs) = first_valid vs"
| "first_valid (Some v # vs) = Some v"

definition bucket_first :: "'v series \<Rightarrow> int \<Rightarrow> 'v option" where
  "bucket_first ds h = first_valid (map snd (filter (\<lambda>(t, v). hour_floor t = h) ds))"

definition hours_of :: "'v series \<Rightarrow> int \<times> nat" where
  "hours_of ds =
     (hour_floor (Min (set (map fst ds))),
      nat ((hour_floor (Max (set (map fst ds))) - hour_floor (Min (set (map fst ds)))) div 3600))"

definition hourly_first :: "'v series \<Rightarrow> 'v series" where
  "hourly_first ds =
     (if ds = [] then []
      else map (\<lambda>k. (fst (hours_of ds) + 3600 * int k,
                        bucket_first ds (fst (hours_of ds) + 3600 * int k)))
               [0 ..< Suc (snd (hours_of ds))])"

definition resample_1h_first :: "'v series \<Rightarrow> 'v series" where
  "resample_1h_first ds = hourly_first (sort_key fst ds)"

text \<open>
  The hook object; \<open>hook_realization\<close> is its attribute \<open>_ngen_realization\<close>, and the
  other fields are the attributes of the same name. Of \<open>EvaluationOptions\<close> the two
  fields that are read are kept;
  \<open>ValidationOptions\<close> is the interval that its method \<open>evaluation_interval()\<close> returns.
  A nexus is its id, its gauge when it has one (a \<open>NWISLocation\<close>: the station and
  the geometry, whose type is left open) and the ids of its contributing catchments.
\<close>

record EvaluationOptions =
  evaluation_start :: "int option"
  evaluation_stop :: "int option"

record ValidationOptions =
  evaluation_interval :: "int \<times> int"

record TrouteOutputSettings =
  validation_routing_output :: path

record TrouteOutput =
  output_file :: path
  settings :: "TrouteOutputSettings option"
  hook_realization :: "NgenRealization option"
  validation_options :: "ValidationOptions option"
  eval_options :: "EvaluationOptions option"

record 'g NWISLocation =
  station_id :: string
  location_id :: string
  geometry :: 'g

record 'g Nexus =
  nexus_id :: string
  hydro_location :: "'g NWISLocation option"
  contributing_catchments :: "string list"

text \<open>
  The file system as the hook sees it: which paths exist, the text of a file, and
  \<open>load\<close>, the parser built for a file of a detected format, which maps the integer id of
  a feature to its series, or fails while it reads the file.
\<close>

record 'v Files =
  exists :: "path \<Rightarrow> bool"
  read_text :: "path \<Rightarrow> string"
  load :: "OutputFormat \<Rightarrow> path \<Rightarrow> pyexn + (int \<Rightarrow> pyexn + 'v series)"

definition realization_required :: string where
  "realization_required =
     ''ngen realization required; ensure `ngen_cal_model_configure` was called '' @
     ''and the plugin was properly configured''"

definition sim_eval_interval :: "TrouteOutput \<Rightarrow> pyexn + (int \<times> int)" where
  "sim_eval_interval self =
     (case hook_realization self of
        None \<Rightarrow> Inl (AssertionError realization_required)
      | Some r \<Rightarrow>
          (case eval_options self of
             Some opts \<Rightarrow>
               (case evaluation_start opts of
                  Some start \<Rightarrow>
                    (case evaluation_stop opts of
                       None \<Rightarrow> Inl (AssertionError [])
                     | Some stop \<Rightarrow> Inr (start, stop))
                | None \<Rightarrow> Inr (start_time (time r), end_time (time r)))
           | None \<Rightarrow> Inr (start_time (time r), end_time (time r))))"

definition validation_eval_interval :: "TrouteOutput \<Rightarrow> pyexn + (int \<times> int)" where
  "validation_eval_interval self =
     (case validation_options self of
        None \<Rightarrow> sim_eval_interval self
      | Some v \<Rightarrow> Inr (evaluation_interval v))"

text \<open>
  The choice of the file and of the evaluation interval at the start of \<open>get_output\<close>;
  \<open>None\<close> when neither file exists.
\<close>

definition select_output ::
  "'v Files \<Rightarrow> TrouteOutput \<Rightarrow> pyexn + (path \<times> int \<times> int) option" where
  "select_output fs self =
     (if settings self \<noteq> None \<and> exists fs (validation_routing_output (the (settings self)))
      then (case validation_eval_interval self of
              Inl e \<Rightarrow> Inl e
            | Inr (start, stop) \<Rightarrow>
                Inr (Some (validation_routing_output (the (settings self)), start, stop)))
      else if exists fs (output_file self)
      then (case sim_eval_interval self of
              Inl e \<Rightarrow> Inl e
            | Inr (start, stop) \<Rightarrow> Inr (Some (output_file self, start, stop)))
      else Inr None)"

text \<open>
  The \<open>try\<close> block: the flows of the contributing catchments are added up;
  \<open>id[len("cat-"):]\<close> drops the first four characters of the id.
\<close>

definition no_data :: "int \<Rightarrow> pyexn" where
  "no_data i = RuntimeError (''no data for '' @ show_int i)"

definition feature_flows :: "(int \<Rightarrow> pyexn + 'v series) \<Rightarrow> string \<Rightarrow> pyexn + 'v series" where
  "feature_flows fn ident =
     (case py_int (drop 4 ident) of
        None \<Rightarrow> Inl (int_value_error (drop 4 ident))
      | Some i \<Rightarrow>
          (case fn i of
             Inl e \<Rightarrow> Inl e
           | Inr ds \<Rightarrow> if ds = [] then Inl (no_data i) else Inr ds))"

fun add_flows ::
  "(int \<Rightarrow> pyexn + 'v::plus series) \<Rightarrow> 'v series \<Rightarrow> string list \<Rightarrow> pyexn + 'v series" where
  "add_flows fn ds [] = Inr ds"
| "add_flows fn ds (c # cs) =
     (case feature_flows fn c of
        Inl e \<Rightarrow> Inl e
      | Inr flows \<Rightarrow> add_flows fn (series_iadd ds flows) cs)"

definition catchment_flows ::
  "(int \<Rightarrow> pyexn + 'v::plus series) \<Rightarrow> 'g Nexus \<Rightarrow> pyexn + 'v series" where
  "catchment_flows fn nex =
     (case contributing_catchments nex of
        [] \<Rightarrow> Inl (IndexError ''list index out of range'')
      | c # cs \<Rightarrow>
          (case feature_flows fn c of
             Inl e \<Rightarrow> Inl e
           | Inr ds \<Rightarrow> add_flows fn ds cs))"

text \<open>The \<open>except\<close> block: the flows under the id of the nexus itself.\<close>

definition nexus_flows :: "(int \<Rightarrow> pyexn + 'v series) \<Rightarrow> 'g Nexus \<Rightarrow> pyexn + 'v series" where
  "nexus_flows fn nex = feature_flows fn (nexus_id nex)"

definition extract_flows ::
  "(int \<Rightarrow> pyexn + 'v::plus series) \<Rightarrow> 'g Nexus \<Rightarrow> pyexn + 'v series" where
  "extract_flows fn nex =
     (case catchment_flows fn nex of
        Inr ds \<Rightarrow> Inr ds
      | Inl e \<Rightarrow>
          (case nexus_flows fn nex of
             Inr ds \<Rightarrow> Inr ds
           | Inl e' \<Rightarrow> Inl e))"

definition get_output ::
  "'v::plus Files \<Rightarrow> TrouteOutput \<Rightarrow> 'g Nexus \<Rightarrow> pyexn + 'v series option" where
  "get_output fs self nex =
     (case hook_realization self of
        None \<Rightarrow> Inl (AssertionError realization_required)
      | Some r \<Rightarrow>
          (case select_output fs self of
             Inl e \<Rightarrow> Inl e
           | Inr None \<Rightarrow> Inr None
           | Inr (Some (file, start, stop)) \<Rightarrow>
               (case output_handler_factory (read_text fs) file of
                  Inl e \<Rightarrow> Inl e
                | Inr fmt \<Rightarrow>
                    (case load fs fmt file of
                       Inl e \<Rightarrow> Inl e
                     | Inr fn \<Rightarrow>
                         (case extract_flows fn nex of
                            Inl e \<Rightarrow> Inl e
                          | Inr ds \<Rightarrow>
                              (case loc_slice (start_time (time r) + output_interval (time r))
                                      stop ds of
                                 Inl e \<Rightarrow> Inl e
                               | Inr part \<Rightarrow> Inr (Some (resample_1h_first part))))))))"

section \<open>The routing time step: \<open>_routing_timestep_size_s\<close>\<close>

text \<open>
  A Python \<open>float\<close> is modelled by the rational number it denotes. The result of an
  arithmetic operation is the exact result rounded to the nearest number with a
  significand of 53 bits, ties to the even significand (\<open>rnd\<close>). The range of the
  exponent is not bounded, so overflow and subnormal numbers are not modelled, and neither
  are \<open>NaN\<close>, the infinities and the sign of zero: the model is that of the doubles for
  numbers whose results stay between \<open>2\<^sup>-\<^sup>1\<^sup>0\<^sup>2\<^sup>2\<close> and \<open>2\<^sup>1\<^sup>0\<^sup>2\<^sup>4\<close> in magnitude, which the
  properties below ensure by their bounds on the integers.
\<close>

function ilog2 :: "int \<Rightarrow> int" where
  "ilog2 n = (if n < 2 then 0 else 1 + ilog2 (n div 2))"
  by pat_completeness auto
termination
  by (relation "measure nat") auto

declare ilog2.simps [simp del]

definition pow2 :: "int \<Rightarrow> rat" where
  "pow2 e = (if 0 \<le> e then 2 ^ nat e else 1 / 2 ^ nat (- e))"

text \<open>For \<open>q > 0\<close>, the exponent \<open>e\<close> with \<open>2\<^sup>e \<le> q < 2\<^sup>e\<^sup>+\<^sup>1\<close>.\<close>

definition floor_log2 :: "rat \<Rightarrow> int" where
  "floor_log2 q =
     (let (n, d) = quotient_of q;
          e = ilog2 n - ilog2 d
      in if pow2 e \<le> q then e else e - 1)"

definition round_half_even :: "rat \<Rightarrow> int" where
  "round_half_even m =
     (let f = \<lfloor>m\<rfloor>; r = m - of_int f
      in if r < 1 / 2 then f else if 1 / 2 < r then f + 1
         else if even f then f else f + 1)"

definition rnd :: "rat \<Rightarrow> rat" where
  "rnd q =
     (if q = 0 then 0
      else let u = pow2 (floor_log2 \<bar>q\<bar> - 52)
           in sgn q * of_int (round_half_even (\<bar>q\<bar> / u)) * u)"

text \<open>
  \<open>divmod(vx, wx)\<close> on floats, as CPython's \<open>float_divmod\<close> computes it, for
  \<open>wx \<noteq> 0\<close>: \<open>fmod\<close> is exact, and the quotient is corrected after the rounded
  division.
\<close>

definition fmod :: "rat \<Rightarrow> rat \<Rightarrow> rat" where
  "fmod vx wx =
     vx - wx * of_int (if 0 \<le> vx / wx then \<lfloor>vx / wx\<rfloor> else \<lceil>vx / wx\<rceil>)"

definition float_divmod :: "rat \<Rightarrow> rat \<Rightarrow> rat \<times> rat" where
  "float_divmod vx wx =
     (let mod0 = fmod vx wx;
          div0 = rnd (rnd (vx - mod0) / wx);
          adjust = (mod0 \<noteq> 0 \<and> ((wx < 0) \<noteq> (mod0 < 0)));
          mod1 = (if adjust then rnd (mod0 + wx) else mod0);
          div1 = (if adjust then rnd (div0 - 1) else div0);
          floordiv =
            (if div1 \<noteq> 0
             then (if 1 / 2 < rnd (div1 - of_int \<lfloor>div1\<rfloor>)
                   then rnd (of_int \<lfloor>div1\<rfloor> + 1) else of_int \<lfloor>div1\<rfloor>)
             else 0)
      in (floordiv, mod1))"

text \<open>
  \<open>len(pd.date_range(start, end, freq=f"{f}s", inclusive="right"))\<close> for a number
  \<open>f \<noteq> 0\<close> of seconds. \<open>pandas\<close> builds the points \<open>start\<close>, \<open>start + f\<close>,
  \<open>start + 2f\<close>, ... that do not pass \<open>end\<close> and drops the first of them, \<open>start\<close>;
  when \<open>start = end\<close> it keeps that one point. With a negative \<open>f\<close> the points go
  down from \<open>start\<close>.
\<close>

definition date_range_right_len :: "int \<Rightarrow> int \<Rightarrow> int \<Rightarrow> int" where
  "date_range_right_len start stop f =
     (if start = stop then 1 else max 0 ((stop - start) div f))"

text \<open>
  \<open>_routing_timestep_size_s\<close>. A frequency of zero seconds fails in \<open>date_range\<close>,
  which divides by it. The division of two integers is the rounded quotient, and
  \<open>divmod\<close> takes the integer \<open>ngen_ts_s\<close> as a float.
\<close>

definition routing_timestep_size_s :: "int \<Rightarrow> NgenRealization \<Rightarrow> pyexn + int" where
  "routing_timestep_size_s routing_n_ts realization =
     (let start = start_time (time realization);
          stop = end_time (time realization);
          ngen_ts_s = output_interval (time realization)
      in if ngen_ts_s = 0 then Inl (ZeroDivisionError ''integer division or modulo by zero'')
         else
           let ngen_n_ts = date_range_right_len start stop ngen_ts_s
           in if ngen_n_ts = 0 then Inl (ZeroDivisionError ''division by zero'')
              else let r_n_ts_in_ngen_ts = rnd (of_int routing_n_ts / of_int ngen_n_ts)
                   in if r_n_ts_in_ngen_ts = 0 then Inl (ZeroDivisionError ''float divmod()'')
                      else let (r_dt, r) = float_divmod (rnd (of_int ngen_ts_s)) r_n_ts_in_ngen_ts
                           in if r \<noteq> 0
                              then Inl (AssertionError
                                     ''routing timestep is not evenly divisible by ngen_timesteps'')
                              else Inr \<lfloor>r_dt\<rfloor>)"

section \<open>The parameter table: \<open>_params_as_df\<close> and \<open>_map_params_to_realization\<close>\<close>

text \<open>
  A \<open>Parameter\<close> is its name and its other attributes (bounds, initial value), whose
  type is left open. The mapping from model name to parameters is a Python dictionary:
  an association list in insertion order. A data frame is the list of its rows: the
  index label \<open>p\<close>, the columns \<open>param\<close> and \<open>model\<close>, and the other attributes.
\<close>

record 'a Parameter =
  par_name :: string
  par_attrs :: 'a

record 'a Row =
  row_p :: string
  row_param :: string
  row_model :: string
  row_attrs :: 'a

type_synonym 'a Parameters = "'a Parameter list"

definition model_rows :: "string \<Rightarrow> 'a Parameters \<Rightarrow> 'a Row list" where
  "model_rows k v =
     map (\<lambda>s. \<lparr>row_p = par_name s, row_param = par_name s, row_model = k,
                row_attrs = par_attrs s\<rparr>) v"

text \<open>
  \<open>_params_as_df\<close>. \<open>not name\<close> holds for \<open>None\<close> and for the empty string. In the
  first branch \<open>pd.concat\<close> raises \<open>ValueError\<close> on an empty list of frames, and
  \<open>df['param']\<close> raises \<open>KeyError\<close> when no model has a parameter, since no frame has
  that column then.
\<close>

definition params_as_df ::
  "(string \<times> 'a Parameters) list \<Rightarrow> string option \<Rightarrow> pyexn + 'a Row list" where
  "params_as_df params name =
     (if name = None \<or> name = Some []
      then (if params = [] then Inl (ValueError ''No objects to concatenate'')
            else let df = concat (map (\<lambda>(k, v). model_rows k v) params)
                 in if df = [] then Inl (KeyError ''param'') else Inr df)
      else (let p = (case map_of params (the name) of None \<Rightarrow> [] | Some v \<Rightarrow> v)
            in Inr (model_rows (the name) p)))"

text \<open>
  The module of a formulation: a \<open>MultiBMI\<close> with the model names of its modules, or a
  single model with its name.
\<close>

datatype Module = MultiBMI "string list" | SingleModel string

definition map_params_to_realization ::
  "(string \<times> 'a Parameters) list \<Rightarrow> Module \<Rightarrow> pyexn + 'a Row list" where
  "map_params_to_realization params formulation =
     (case formulation of
        MultiBMI modules \<Rightarrow>
          (case collect (map (\<lambda>m. params_as_df params (Some m)) modules) of
             Inl e \<Rightarrow> Inl e
           | Inr dfs \<Rightarrow>
               if dfs = [] then Inl (ValueError ''No objects to concatenate'')
               else Inr (concat dfs))
      | SingleModel model_name \<Rightarrow> params_as_df params (Some model_name))"

text \<open>\<open>df.loc[label]\<close> seen as a selection: the rows that carry the index label.\<close>

definition rows_at :: "'a Row list \<Rightarrow> string \<Rightarrow> 'a Row list" where
  "rows_at df label = filter (\<lambda>r. row_p r = label) df"

section \<open>Construction of the calibration targets\<close>

text \<open>
  A table of the hydrofabric is the list of its rows in index order, each with its index
  label; the labels of a table are taken to be unique, so that \<open>.loc[label]\<close> is the
  row under the label, and \<open>KeyError\<close> when there is none. The catchment table
  (\<open>divides\<close>) and the flowpath table carry the column \<open>toid\<close>, the nexus table the
  geometry, the crosswalk the gauge.
\<close>

type_synonym 'a frame = "(string \<times> 'a) list"

record 'g Hydrofabric =
  catchment_hydro_fabric :: "string frame"
  nexus_hydro_fabric :: "'g frame"
  flowpath_hydro_fabric :: "string frame"
  x_walk :: "string frame"

text \<open>
  The three kinds of adjustable object that the strategies append to \<open>_catchments\<close>,
  with the arguments that come from the hydrofabric and the parameters: the catchment id,
  the evaluation nexus and the parameter table. An \<open>AdjustableCatchment\<close> is a member
  of a \<open>CalibrationSet\<close>.
\<close>

record ('g, 'a) AdjustableCatchment =
  adj_id :: string
  adj_nexus :: "'g Nexus"
  adj_params :: "'a Row list"

datatype ('g, 'a) Target =
    CalibrationCatchment string "'g Nexus" "'a Row list"
  | CalibrationSet "('g, 'a) AdjustableCatchment list" "'g Nexus"
  | UniformCalibrationSet "'g Nexus" "'a Row list"

definition single_nexus_required :: pyexn where
  "single_nexus_required =
     RuntimeError (''Currently only a single nexus in the hydrfabric can be gaged, '' @
                   ''set the eval_feature key to pick one.'')"

definition gauged_nexus :: "string \<Rightarrow> string \<Rightarrow> 'g \<Rightarrow> string list \<Rightarrow> 'g Nexus" where
  "gauged_nexus nex gage geom cats =
     \<lparr>nexus_id = nex,
      hydro_location = Some \<lparr>station_id = gage, location_id = nex, geometry = geom\<rparr>,
      contributing_catchments = cats\<rparr>"

subsection \<open>\<open>NgenExplicit\<close>\<close>

text \<open>
  A catchment of the realization: its \<open>calibration\<close> attribute, when it has one, and the
  module of its first formulation.
\<close>

record 'a CatchmentRealization =
  calibration :: "(string \<times> 'a Parameters) list option"
  formulation :: Module

fun ngen_explicit ::
  "'g Hydrofabric \<Rightarrow> (string \<times> 'a CatchmentRealization) list \<Rightarrow> pyexn + ('g, 'a) Target list" where
  "ngen_explicit hf [] = Inr []"
| "ngen_explicit hf ((ident, catchment) # rest) =
     (case calibration catchment of
        None \<Rightarrow> ngen_explicit hf rest
      | Some cal \<Rightarrow>
          (case map_of (catchment_hydro_fabric hf) ident of
             None \<Rightarrow> ngen_explicit hf rest
           | Some toid \<Rightarrow>
               (case map_of (x_walk hf) ident of
                  None \<Rightarrow> Inl (RuntimeError (''Cannot establish mapping of catchment '' @ ident
                                               @ '' to nwis location in cross walk''))
                | Some nwis \<Rightarrow>
                    (case map_of (nexus_hydro_fabric hf) toid of
                       None \<Rightarrow> Inl (RuntimeError (''No suitable nexus found for catchment ''
                                                    @ ident))
                     | Some geom \<Rightarrow>
                         (case map_params_to_realization cal (formulation catchment) of
                            Inl e \<Rightarrow> Inl e
                          | Inr params \<Rightarrow>
                              (case ngen_explicit hf rest of
                                 Inl e \<Rightarrow> Inl e
                               | Inr ts \<Rightarrow>
                                   Inr (CalibrationCatchment ident
                                          (gauged_nexus toid nwis geom [ident]) params
                                        # ts)))))))"

subsection \<open>\<open>NgenIndependent\<close>\<close>

text \<open>
  The loop over the catchments of the hydrofabric. Every catchment gets the global
  configuration, so the module is the same for all. The result is the list \<open>eval_nexus\<close>
  and the list \<open>catchments\<close>. The rewriting of the forcing paths, which comes first in
  the source and reads the forcing directory, does not touch either list and is left out.
\<close>

definition lookup_gage :: "string frame \<Rightarrow> string \<Rightarrow> string option" where
  "lookup_gage xw ident =
     (case map_of xw (str_replace ''cat'' ''wb'' ident) of
        Some nwis \<Rightarrow> Some nwis
      | None \<Rightarrow> map_of xw ident)"

fun independent_scan ::
  "'g Hydrofabric \<Rightarrow> (string \<times> 'a Parameters) list \<Rightarrow> Module \<Rightarrow> string frame \<Rightarrow>
     pyexn + ('g Nexus list \<times> ('g, 'a) AdjustableCatchment list)" where
  "independent_scan hf params g [] = Inr ([], [])"
| "independent_scan hf params g ((ident, toid) # rest) =
     (case map_of (nexus_hydro_fabric hf) toid of
        None \<Rightarrow> Inl (RuntimeError (''No suitable nexus found for catchment '' @ ident))
      | Some geom \<Rightarrow>
          (let nwis = lookup_gage (x_walk hf) ident;
               nex = (case nwis of
                        Some gage \<Rightarrow> gauged_nexus toid gage geom [ident]
                      | None \<Rightarrow> \<lparr>nexus_id = toid, hydro_location = None,
                                  contributing_catchments = [ident]\<rparr>)
           in case map_params_to_realization params g of
                Inl e \<Rightarrow> Inl e
              | Inr ps \<Rightarrow>
                  (case independent_scan hf params g rest of
                     Inl e \<Rightarrow> Inl e
                   | Inr (eval_nexus, adjustables) \<Rightarrow>
                       Inr ((if nwis \<noteq> None then [nex] else []) @ eval_nexus,
                            \<lparr>adj_id = ident, adj_nexus = nex, adj_params = ps\<rparr>
                            # adjustables))))"

text \<open>
  The loop under \<open>if self.eval_feature\<close>: the first nexus of the list whose first
  flowpath is \<open>eval_feature\<close>; \<open>wb.iloc[0]\<close> raises \<open>IndexError\<close> for a nexus that no
  flowpath flows to.
\<close>

fun pick_eval_feature ::
  "string frame \<Rightarrow> string \<Rightarrow> 'g Nexus list \<Rightarrow> pyexn + 'g Nexus option" where
  "pick_eval_feature flowpaths feature [] = Inr None"
| "pick_eval_feature flowpaths feature (n # ns) =
     (case filter (\<lambda>(ident, toid). toid = nexus_id n) flowpaths of
        [] \<Rightarrow> Inl (IndexError ''single positional indexer is out-of-bounds'')
      | (key, toid) # wb \<Rightarrow>
          if key = feature then Inr (Some n) else pick_eval_feature flowpaths feature ns)"

definition set_feature :: "string option \<Rightarrow> bool" where
  "set_feature eval_feature = (eval_feature \<noteq> None \<and> eval_feature \<noteq> Some [])"

definition independent_candidates ::
  "'g Hydrofabric \<Rightarrow> string option \<Rightarrow> (string \<times> 'a Parameters) list \<Rightarrow> Module \<Rightarrow>
     pyexn + ('g Nexus list \<times> ('g, 'a) AdjustableCatchment list)" where
  "independent_candidates hf eval_feature params g =
     (case independent_scan hf params g (catchment_hydro_fabric hf) of
        Inl e \<Rightarrow> Inl e
      | Inr (eval_nexus, adjustables) \<Rightarrow>
          if set_feature eval_feature
          then (case pick_eval_feature (flowpath_hydro_fabric hf) (the eval_feature)
                       eval_nexus of
                  Inl e \<Rightarrow> Inl e
                | Inr (Some n) \<Rightarrow> Inr ([n], adjustables)
                | Inr None \<Rightarrow> Inr (eval_nexus, adjustables))
          else Inr (eval_nexus, adjustables))"

definition ngen_independent ::
  "'g Hydrofabric \<Rightarrow> string option \<Rightarrow> (string \<times> 'a Parameters) list \<Rightarrow> Module \<Rightarrow>
     pyexn + ('g, 'a) Target list" where
  "ngen_independent hf eval_feature params g =
     (case independent_candidates hf eval_feature params g of
        Inl e \<Rightarrow> Inl e
      | Inr (eval_nexus, adjustables) \<Rightarrow>
          if length eval_nexus \<noteq> 1 then Inl single_nexus_required
          else Inr [CalibrationSet adjustables (hd eval_nexus)])"

subsection \<open>\<open>NgenUniform\<close>\<close>

text \<open>
  \<open>_build_gauged_hyfeatures_nexuses\<close>: one nexus for every entry of the crosswalk.
\<close>

fun build_gauged_hyfeatures_nexuses ::
  "string frame \<Rightarrow> 'g frame \<Rightarrow> string frame \<Rightarrow> pyexn + 'g Nexus list" where
  "build_gauged_hyfeatures_nexuses divides nexuses [] = Inr []"
| "build_gauged_hyfeatures_nexuses divides nexuses ((wb_id, gage_id) # rest) =
     (case map_of divides (str_replace ''wb'' ''cat'' wb_id) of
        None \<Rightarrow> Inl (KeyError (str_replace ''wb'' ''cat'' wb_id))
      | Some nex \<Rightarrow>
          (case map_of nexuses nex of
             None \<Rightarrow> Inl (KeyError nex)
           | Some geom \<Rightarrow>
               (case build_gauged_hyfeatures_nexuses divides nexuses rest of
                  Inl e \<Rightarrow> Inl e
                | Inr ns \<Rightarrow>
                    Inr (gauged_nexus nex gage_id geom
                           (map fst (filter (\<lambda>(ident, toid). toid = nex) divides))
                         # ns))))"

text \<open>\<open>_find_eval_feature\<close>.\<close>

fun find_candidates :: "string \<Rightarrow> 'g Nexus list \<Rightarrow> pyexn + 'g Nexus list" where
  "find_candidates feature [] = Inr []"
| "find_candidates feature (n # ns) =
     (if startswith feature ''nex-'' \<and> feature = nexus_id n
      then (case find_candidates feature ns of
              Inl e \<Rightarrow> Inl e | Inr cs \<Rightarrow> Inr (n # cs))
      else if startswith feature ''cat-''
      then (case find_candidates feature ns of
              Inl e \<Rightarrow> Inl e
            | Inr cs \<Rightarrow> Inr ((if feature \<in> set (contributing_catchments n) then [n] else []) @ cs))
      else (case hydro_location n of
              None \<Rightarrow> Inl (AssertionError [])
            | Some loc \<Rightarrow>
                (case find_candidates feature ns of
                   Inl e \<Rightarrow> Inl e
                 | Inr cs \<Rightarrow> Inr ((if feature = station_id loc then [n] else []) @ cs))))"

definition find_eval_feature :: "string \<Rightarrow> 'g Nexus list \<Rightarrow> pyexn + 'g Nexus list" where
  "find_eval_feature eval_feature nexuses =
     find_candidates
       (if startswith eval_feature ''wb-'' then str_replace ''wb-'' ''cat-'' eval_feature
        else eval_feature)
       nexuses"

definition uniform_candidates :: "'g Hydrofabric \<Rightarrow> string option \<Rightarrow> pyexn + 'g Nexus list" where
  "uniform_candidates hf eval_feature =
     (case build_gauged_hyfeatures_nexuses (catchment_hydro_fabric hf) (nexus_hydro_fabric hf)
             (x_walk hf) of
        Inl e \<Rightarrow> Inl e
      | Inr eval_nexus \<Rightarrow>
          if set_feature eval_feature then find_eval_feature (the eval_feature) eval_nexus
          else Inr eval_nexus)"

definition ngen_uniform ::
  "'g Hydrofabric \<Rightarrow> string option \<Rightarrow> (string \<times> 'a Parameters) list \<Rightarrow>
     pyexn + ('g, 'a) Target list" where
  "ngen_uniform hf eval_feature params =
     (case uniform_candidates hf eval_feature of
        Inl e \<Rightarrow> Inl e
      | Inr eval_nexus \<Rightarrow>
          if length eval_nexus \<noteq> 1 then Inl single_nexus_required
          else (case params_as_df params None of
                  Inl e \<Rightarrow> Inl e
                | Inr ps \<Rightarrow> Inr [UniformCalibrationSet (hd eval_nexus) ps]))"

section \<open>Example inputs\<close>

text \<open>
  A stream output file of the second version with one row, a realization of ten hours
  with an output interval of one hour, and hooks over them: one with the default
  evaluation options and one whose evaluation interval stops after the first hour.
\<close>

definition stream_v2_text :: string where
  "stream_v2_text =
     '',,current_time,flow,velocity,depth,nudge'' @ [CHR 0x0A] @
     ''6680,wb,2010-10-01 01:00:00,1.5,0.0,0.0,-9999.0'' @ [CHR 0x0A]"

definition ten_hours :: NgenRealization where
  "ten_hours = \<lparr>time = \<lparr>start_time = 0, end_time = 36000, output_interval = 3600\<rparr>,
                output_root = None\<rparr>"

definition default_hook :: TrouteOutput where
  "default_hook =
     \<lparr>output_file = ''flowveldepth_Ngen.csv'', settings = None,
      hook_realization = Some ten_hours, validation_options = None,
      eval_options = Some \<lparr>evaluation_start = None, evaluation_stop = None\<rparr>\<rparr>"


definition no_files :: "real Files" where
  "no_files = \<lparr>exists = (\<lambda>p. False), read_text = (\<lambda>p. []),
               load = (\<lambda>fmt p. Inl (RuntimeError ''no such file''))\<rparr>"




definition three_nexus :: "unit Nexus" where
  "three_nexus = \<lparr>nexus_id = ''nex-9'', hydro_location = None,
                  contributing_catchments = [''cat-1'', ''cat-2'', ''cat-3'']\<rparr>"



text \<open>
  Two models that each declare a parameter \<open>maxsmc\<close>; the attributes of a parameter
  are its bounds here.
\<close>

definition shared_name :: "(string \<times> (real \<times> real) Parameters) list" where
  "shared_name =
     [(''CFE'', [\<lparr>par_name = ''maxsmc'', par_attrs = (0.2, 0.6)\<rparr>,
                 \<lparr>par_name = ''satdk'', par_attrs = (0, 1)\<rparr>]),
      (''NoahOWP'', [\<lparr>par_name = ''maxsmc'', par_attrs = (0.1, 0.9)\<rparr>])]"

definition shared_name_df :: "(real \<times> real) Row list" where
  "shared_name_df =
     [\<lparr>row_p = ''maxsmc'', row_param = ''maxsmc'', row_model = ''CFE'',
       row_attrs = (0.2, 0.6)\<rparr>,
      \<lparr>row_p = ''satdk'', row_param = ''satdk'', row_model = ''CFE'', row_attrs = (0, 1)\<rparr>,
      \<lparr>row_p = ''maxsmc'', row_param = ''maxsmc'', row_model = ''NoahOWP'',
       row_attrs = (0.1, 0.9)\<rparr>]"

text \<open>
  Hydrofabrics with two catchments that flow to two nexuses: one where one flowpath has
  a gauge, one where both have, and one whose crosswalk is keyed by the catchment ids,
  as the explicit strategy reads it; and a realization in which both catchments are
  calibrated.
\<close>

definition one_gauge :: "unit Hydrofabric" where
  "one_gauge =
     \<lparr>catchment_hydro_fabric = [(''cat-1'', ''nex-1''), (''cat-2'', ''nex-2'')],
      nexus_hydro_fabric = [(''nex-1'', ()), (''nex-2'', ())],
      flowpath_hydro_fabric = [(''wb-1'', ''nex-1''), (''wb-2'', ''nex-2'')],
      x_walk = [(''wb-2'', ''01646500'')]\<rparr>"

definition two_gauges :: "unit Hydrofabric" where
  "two_gauges =
     \<lparr>catchment_hydro_fabric = [(''cat-1'', ''nex-1''), (''cat-2'', ''nex-2'')],
      nexus_hydro_fabric = [(''nex-1'', ()), (''nex-2'', ())],
      flowpath_hydro_fabric = [(''wb-1'', ''nex-1''), (''wb-2'', ''nex-2'')],
      x_walk = [(''wb-1'', ''01638500''), (''wb-2'', ''01646500'')]\<rparr>"

definition two_gauges_by_catchment :: "unit Hydrofabric" where
  "two_gauges_by_catchment =
     \<lparr>catchment_hydro_fabric = [(''cat-1'', ''nex-1''), (''cat-2'', ''nex-2'')],
      nexus_hydro_fabric = [(''nex-1'', ()), (''nex-2'', ())],
      flowpath_hydro_fabric = [(''wb-1'', ''nex-1''), (''wb-2'', ''nex-2'')],
      x_walk = [(''cat-1'', ''01638500''), (''cat-2'', ''01646500'')]\<rparr>"

definition cfe_params :: "(string \<times> unit Parameters) list" where
  "cfe_params = [(''CFE'', [\<lparr>par_name = ''maxsmc'', par_attrs = ()\<rparr>])]"

definition cfe_row :: "unit Row" where
  "cfe_row = \<lparr>row_p = ''maxsmc'', row_param = ''maxsmc'', row_model = ''CFE'',
              row_attrs = ()\<rparr>"

definition both_calibrated :: "(string \<times> unit CatchmentRealization) list" where
  "both_calibrated =
     [(''cat-1'', \<lparr>calibration = Some cfe_params, formulation = SingleModel ''CFE''\<rparr>),
      (''cat-2'', \<lparr>calibration = Some cfe_params, formulation = SingleModel ''CFE''\<rparr>)]"

definition gauged_1 :: "unit Nexus" where
  "gauged_1 = gauged_nexus ''nex-1'' ''01638500'' () [''cat-1'']"

definition gauged_2 :: "unit Nexus" where
  "gauged_2 = gauged_nexus ''nex-2'' ''01646500'' () [''cat-2'']"

definition ungauged_1 :: "unit Nexus" where
  "ungauged_1 = \<lparr>nexus_id = ''nex-1'', hydro_location = None,
                 contributing_catchments = [''cat-1'']\<rparr>"

definition member :: "string \<Rightarrow> unit Nexus \<Rightarrow> (unit, unit) AdjustableCatchment" where
  "member i n = \<lparr>adj_id = i, adj_nexus = n, adj_params = [cfe_row]\<rparr>"

text \<open>A hydrofabric whose two gauged flowpaths flow to the same nexus.\<close>

definition shared_nexus :: "unit Hydrofabric" where
  "shared_nexus =
     \<lparr>catchment_hydro_fabric = [(''cat-2'', ''nex-2''), (''cat-3'', ''nex-2'')],
      nexus_hydro_fabric = [(''nex-2'', ())],
      flowpath_hydro_fabric = [(''wb-2'', ''nex-2''), (''wb-3'', ''nex-2'')],
      x_walk = [(''wb-2'', ''01646500''), (''wb-3'', ''01646502'')]\<rparr>"

text \<open>A realization of thirty hours with an output interval of one hour.\<close>

definition thirty_hours :: NgenRealization where
  "thirty_hours = \<lparr>time = \<lparr>start_time = 0, end_time = 108000, output_interval = 3600\<rparr>,
                   output_root = None\<rparr>"


section \<open>Properties of the schema detection\<close>

lemma card_pair: "a \<noteq> b \<Longrightarrow> card {a, b} = 2"
  by simp

lemma pair_not_triple: "card S = 3 \<Longrightarrow> a \<noteq> b \<Longrightarrow> {a, b} \<noteq> S"
  by auto

lemma flow_tables_one: "flow_tables [''flowpaths'', ''divides''] = {''flowpaths''}"
  by (simp add: flow_tables_def sql_like_flow_def str_lower_def ascii_lower_def)

lemma flow_tables_three:
  "flow_tables [''flowpaths'', ''flowlines'', ''flowpath-attributes'']
     = {''flowpaths'', ''flowlines'', ''flowpath-attributes''}"
  by (simp add: flow_tables_def sql_like_flow_def str_lower_def ascii_lower_def)

lemma card_three_names: "card {''flowpaths'', ''flowlines'', ''flowpath-attributes''} = 3"
  by simp

lemma flow_tables_v20:
  "flow_tables [''divides'', ''flowpaths'', ''flowpath_attributes'']
     = {''flowpaths'', ''flowpath_attributes''}"
  by (simp add: flow_tables_def sql_like_flow_def str_lower_def ascii_lower_def)

lemma flow_tables_v21:
  "flow_tables [''flowlines'', ''flowpath-attributes'', ''nexus'']
     = {''flowlines'', ''flowpath-attributes''}"
  by (simp add: flow_tables_def sql_like_flow_def str_lower_def ascii_lower_def)

lemma flow_tables_v22:
  "flow_tables [''flowpaths'', ''flowpath-attributes'']
     = {''flowpaths'', ''flowpath-attributes''}"
  by (simp add: flow_tables_def sql_like_flow_def str_lower_def ascii_lower_def)

lemma hf_version_one:
  "hf_version [''flowpaths'', ''divides'']
     = Inl (AssertionError two_tables_expected)"
  by (simp add: hf_version_def flow_tables_one)

lemma hf_version_three:
  "hf_version [''flowpaths'', ''flowlines'', ''flowpath-attributes'']
     = Inl (KeyError ''could not determine HF version. debug information: '')"
proof -
  let ?S = "{''flowpaths'', ''flowlines'', ''flowpath-attributes''}"
  have a: "{''flowpaths'', ''flowpath_attributes''} \<noteq> ?S"
    by (rule pair_not_triple [OF card_three_names]) simp
  have b: "{''flowlines'', ''flowpath-attributes''} \<noteq> ?S"
    by (rule pair_not_triple [OF card_three_names]) simp
  have c: "{''flowpaths'', ''flowpath-attributes''} \<noteq> ?S"
    by (rule pair_not_triple [OF card_three_names]) simp
  show ?thesis
    unfolding hf_version_def flow_tables_three Let_def
    using a b c card_three_names by simp
qed

text \<open>
  C3, as the code has it. Each of the three pairs of table names gives its own
  generation, and the three generations differ. With fewer than two candidate tables the
  detection fails with an \<open>AssertionError\<close>; with two or more that are none of the three
  pairs it fails with a \<open>KeyError\<close>.
\<close>

theorem hf_version_detection:
  "(flow_tables ts = {''flowpaths'', ''flowpath_attributes''} \<longrightarrow> hf_version ts = Inr HF_2_0) \<and>
   (flow_tables ts = {''flowlines'', ''flowpath-attributes''} \<longrightarrow> hf_version ts = Inr HF_2_1) \<and>
   (flow_tables ts = {''flowpaths'', ''flowpath-attributes''} \<longrightarrow> hf_version ts = Inr HF_2_2) \<and>
   HF_2_0 \<noteq> HF_2_1 \<and> HF_2_0 \<noteq> HF_2_2 \<and> HF_2_1 \<noteq> HF_2_2 \<and>
   (card (flow_tables ts) < 2 \<longrightarrow>
      (\<exists>m. hf_version ts = Inl (AssertionError m))) \<and>
   (2 \<le> card (flow_tables ts) \<and>
    flow_tables ts \<noteq> {''flowpaths'', ''flowpath_attributes''} \<and>
    flow_tables ts \<noteq> {''flowlines'', ''flowpath-attributes''} \<and>
    flow_tables ts \<noteq> {''flowpaths'', ''flowpath-attributes''} \<longrightarrow>
      (\<exists>m. hf_version ts = Inl (KeyError m)))"
proof -
  define A where "A = {''flowpaths'', ''flowpath_attributes''}"
  define B where "B = {''flowlines'', ''flowpath-attributes''}"
  define C where "C = {''flowpaths'', ''flowpath-attributes''}"
  have c0: "card A = 2" unfolding A_def by (rule card_pair) simp
  have c1: "card B = 2" unfolding B_def by (rule card_pair) simp
  have c2: "card C = 2" unfolding C_def by (rule card_pair) simp
  have m1: "''flowlines'' \<in> B" "''flowlines'' \<notin> A" "''flowlines'' \<notin> C"
    unfolding A_def B_def C_def by simp_all
  have m2: "''flowpath_attributes'' \<in> A" "''flowpath_attributes'' \<notin> C"
    unfolding A_def B_def C_def by simp_all
  have d01: "B \<noteq> A" using m1 by blast
  have d02: "C \<noteq> A" using m2 by blast
  have d12: "C \<noteq> B" using m1 by blast
  have "(flow_tables ts = A \<longrightarrow> hf_version ts = Inr HF_2_0) \<and>
   (flow_tables ts = B \<longrightarrow> hf_version ts = Inr HF_2_1) \<and>
   (flow_tables ts = C \<longrightarrow> hf_version ts = Inr HF_2_2) \<and>
   HF_2_0 \<noteq> HF_2_1 \<and> HF_2_0 \<noteq> HF_2_2 \<and> HF_2_1 \<noteq> HF_2_2 \<and>
   (card (flow_tables ts) < 2 \<longrightarrow>
      (\<exists>m. hf_version ts = Inl (AssertionError m))) \<and>
   (2 \<le> card (flow_tables ts) \<and>
    flow_tables ts \<noteq> A \<and> flow_tables ts \<noteq> B \<and> flow_tables ts \<noteq> C \<longrightarrow>
      (\<exists>m. hf_version ts = Inl (KeyError m)))"
    unfolding hf_version_def Let_def A_def [symmetric] B_def [symmetric] C_def [symmetric]
    using c0 c1 c2 d01 d02 d12 by auto
  then show ?thesis unfolding A_def B_def C_def .
qed

theorem hf_version_detection_witness:
  "hf_version [''divides'', ''flowpaths'', ''flowpath_attributes''] = Inr HF_2_0 \<and>
   hf_version [''flowlines'', ''flowpath-attributes'', ''nexus''] = Inr HF_2_1 \<and>
   hf_version [''flowpaths'', ''flowpath-attributes''] = Inr HF_2_2 \<and>
   (\<exists>m. hf_version [''flowpaths'', ''divides''] = Inl (AssertionError m)) \<and>
   (\<exists>m. hf_version [''flowpaths'', ''flowlines'', ''flowpath-attributes''] = Inl (KeyError m))"
proof (intro conjI)
  let ?S = "{''flowpaths'', ''flowlines'', ''flowpath-attributes''}"
  note d = hf_version_detection
  show "hf_version [''divides'', ''flowpaths'', ''flowpath_attributes''] = Inr HF_2_0"
    by (rule mp [OF conjunct1 [OF d] flow_tables_v20])
  show "hf_version [''flowlines'', ''flowpath-attributes'', ''nexus''] = Inr HF_2_1"
    by (rule mp [OF conjunct1 [OF conjunct2 [OF d]] flow_tables_v21])
  show "hf_version [''flowpaths'', ''flowpath-attributes''] = Inr HF_2_2"
    by (rule mp [OF conjunct1 [OF conjunct2 [OF conjunct2 [OF d]]] flow_tables_v22])
  have c1: "card (flow_tables [''flowpaths'', ''divides'']) < 2"
    by (simp add: flow_tables_one)
  have e: "(card (flow_tables ts) < 2 \<longrightarrow> (\<exists>m. hf_version ts = Inl (AssertionError m))) \<and>
   (2 \<le> card (flow_tables ts) \<and>
    flow_tables ts \<noteq> {''flowpaths'', ''flowpath_attributes''} \<and>
    flow_tables ts \<noteq> {''flowlines'', ''flowpath-attributes''} \<and>
    flow_tables ts \<noteq> {''flowpaths'', ''flowpath-attributes''} \<longrightarrow>
      (\<exists>m. hf_version ts = Inl (KeyError m)))" for ts
    by (rule conjunct2 [OF conjunct2 [OF conjunct2 [OF conjunct2 [OF conjunct2
          [OF conjunct2 [OF d]]]]]])
  show "\<exists>m. hf_version [''flowpaths'', ''divides''] = Inl (AssertionError m)"
    by (rule mp [OF conjunct1 [OF e] c1])
  have a: "?S \<noteq> {''flowpaths'', ''flowpath_attributes''}"
    using pair_not_triple [OF card_three_names, of "''flowpaths''" "''flowpath_attributes''"]
    by simp
  have b: "?S \<noteq> {''flowlines'', ''flowpath-attributes''}"
    using pair_not_triple [OF card_three_names, of "''flowlines''" "''flowpath-attributes''"]
    by simp
  have c: "?S \<noteq> {''flowpaths'', ''flowpath-attributes''}"
    using pair_not_triple [OF card_three_names, of "''flowpaths''" "''flowpath-attributes''"]
    by simp
  have c3: "2 \<le> card (flow_tables [''flowpaths'', ''flowlines'', ''flowpath-attributes''])"
    unfolding flow_tables_three card_three_names by simp
  have h: "2 \<le> card (flow_tables [''flowpaths'', ''flowlines'', ''flowpath-attributes'']) \<and>
    flow_tables [''flowpaths'', ''flowlines'', ''flowpath-attributes'']
      \<noteq> {''flowpaths'', ''flowpath_attributes''} \<and>
    flow_tables [''flowpaths'', ''flowlines'', ''flowpath-attributes'']
      \<noteq> {''flowlines'', ''flowpath-attributes''} \<and>
    flow_tables [''flowpaths'', ''flowlines'', ''flowpath-attributes'']
      \<noteq> {''flowpaths'', ''flowpath-attributes''}"
    using c3 a b c unfolding flow_tables_three by (intro conjI)
  show "\<exists>m. hf_version [''flowpaths'', ''flowlines'', ''flowpath-attributes'']
               = Inl (KeyError m)"
    by (rule mp [OF conjunct2 [OF e] h])
qed

text \<open>
  C3 as the specification words it fails: the exception of a detection that fails is an
  \<open>AssertionError\<close> or a \<open>KeyError\<close>, and no \<open>SchemaDetectionError\<close>.
\<close>

theorem hf_version_error_class_counterexample:
  "hf_version [''flowpaths'', ''divides'']
     = Inl (AssertionError two_tables_expected) \<and>
   exn_name (AssertionError two_tables_expected)
     \<noteq> ''SchemaDetectionError'' \<and>
   hf_version [''flowpaths'', ''flowlines'', ''flowpath-attributes'']
     = Inl (KeyError ''could not determine HF version. debug information: '') \<and>
   exn_name (KeyError ''could not determine HF version. debug information: '')
     \<noteq> ''SchemaDetectionError''"
  by (simp add: hf_version_one hf_version_three)

section \<open>Properties of the validation\<close>

text \<open>
  C9. A realization whose \<open>output_root\<close> is set never passes the validator of the model:
  \<open>_verify_ngen_realization\<close> raises \<open>UnsupportedFeatureError\<close> for it, and so does the
  validator whenever the hydrofabric check before it has passed (when that check fails,
  the configuration is rejected by its \<open>ValueError\<close>). So the construction of the model
  is rejected at its first step when such a realization is given in the configuration,
  whether assignments are validated or not. When the realization comes from the
  realization file, the construction is rejected too: by an earlier failure, or, when the
  configuration is valid and the files are read, by the \<open>UnsupportedFeatureError\<close> at the
  assignment of the realization, which is validated.
\<close>

theorem output_root_rejected:
  assumes "output_root r \<noteq> None"
  shows "(\<exists>m. verify_ngen_realization (Some r) = Inl (UnsupportedFeatureError m)) \<and>
         (ngen_realization values = Some r \<longrightarrow>
            (\<exists>e. validate_model values = Inl e) \<and>
            (verify_hydrofabric values = Inr () \<longrightarrow>
               (\<exists>m. validate_model values = Inl (UnsupportedFeatureError m)))) \<and>
         (ngen_realization kwargs = Some r \<longrightarrow>
            (\<exists>e. ngen_base_init validated kwargs prepare parse = Inl e) \<and>
            (verify_hydrofabric kwargs = Inr () \<longrightarrow>
               (\<exists>m. ngen_base_init validated kwargs prepare parse
                      = Inl (UnsupportedFeatureError m)))) \<and>
         (parse kwargs = Inr r \<longrightarrow>
            (\<exists>e. ngen_base_init validate_assignment kwargs prepare parse = Inl e) \<and>
            (validate_model kwargs = Inr kwargs \<and> prepare kwargs = Inr () \<longrightarrow>
               (\<exists>m. ngen_base_init validate_assignment kwargs prepare parse
                      = Inl (UnsupportedFeatureError m))))"
proof -
  have v: "\<exists>m. verify_ngen_realization (Some r) = Inl (UnsupportedFeatureError m)"
    using assms by (auto simp: verify_ngen_realization_def)
  have a: "\<exists>e. validate_model vs = Inl e" if "ngen_realization vs = Some r" for vs
    using that v by (auto simp: validate_model_def split: sum.splits)
  have b: "\<exists>m. validate_model vs = Inl (UnsupportedFeatureError m)"
    if "ngen_realization vs = Some r" "verify_hydrofabric vs = Inr ()" for vs
    using that v by (auto simp: validate_model_def)
  have c1: "\<exists>e. ngen_base_init validated kwargs prepare parse = Inl e"
    if "ngen_realization kwargs = Some r"
    using a [OF that] by (auto simp: ngen_base_init_def)
  have c2: "\<exists>m. ngen_base_init validated kwargs prepare parse = Inl (UnsupportedFeatureError m)"
    if "ngen_realization kwargs = Some r" "verify_hydrofabric kwargs = Inr ()"
    using b [OF that] by (auto simp: ngen_base_init_def)
  have d2: "\<exists>m. ngen_base_init validate_assignment kwargs prepare parse
                  = Inl (UnsupportedFeatureError m)"
    if p: "parse kwargs = Inr r" and k: "validate_model kwargs = Inr kwargs"
      and q: "prepare kwargs = Inr ()"
  proof -
    from k have h: "verify_hydrofabric kwargs = Inr ()"
      by (auto simp: validate_model_def split: sum.splits)
    have "verify_hydrofabric (kwargs\<lparr>ngen_realization := Some r\<rparr>) = Inr ()"
      using h by (simp add: verify_hydrofabric_def split: if_splits)
    from b [OF _ this] p k q show ?thesis
      by (simp add: ngen_base_init_def validate_assignment_def)
  qed
  have d1: "\<exists>e. ngen_base_init validate_assignment kwargs prepare parse = Inl e"
    if p: "parse kwargs = Inr r"
  proof (cases "validate_model kwargs")
    case (Inl e)
    then show ?thesis by (simp add: ngen_base_init_def)
  next
    case (Inr kwargs')
    then have k: "kwargs' = kwargs"
      by (auto simp: validate_model_def split: sum.splits)
    show ?thesis
    proof (cases "prepare kwargs")
      case (Inl e)
      then show ?thesis using Inr k by (simp add: ngen_base_init_def)
    next
      case (Inr u)
      from d2 [OF p] \<open>validate_model kwargs = Inr kwargs'\<close> k Inr show ?thesis by auto
    qed
  qed
  show ?thesis using v a b c1 c2 d1 d2 by blast
qed

theorem output_root_rejected_witness:
  "(\<exists>m. ngen_base_init validate_assignment
          \<lparr>hydrofabric = Some ''hydrofabric.gpkg'', catchments = None, nexus = None,
           crosswalk = None, ngen_realization = None\<rparr>
          (\<lambda>values. Inr ())
          (\<lambda>values. Inr \<lparr>time = \<lparr>start_time = 0, end_time = 36000, output_interval = 3600\<rparr>,
                          output_root = Some ''./output''\<rparr>)
         = Inl (UnsupportedFeatureError m)) \<and>
   (\<exists>m. validate_model
          \<lparr>hydrofabric = Some ''hydrofabric.gpkg'', catchments = None, nexus = None,
           crosswalk = None,
           ngen_realization =
             Some \<lparr>time = \<lparr>start_time = 0, end_time = 36000, output_interval = 3600\<rparr>,
                   output_root = Some ''./output''\<rparr>\<rparr>
         = Inl (UnsupportedFeatureError m)) \<and>
   (\<exists>m. ngen_base_init False
          \<lparr>hydrofabric = Some ''hydrofabric.gpkg'', catchments = None, nexus = None,
           crosswalk = None,
           ngen_realization =
             Some \<lparr>time = \<lparr>start_time = 0, end_time = 36000, output_interval = 3600\<rparr>,
                   output_root = Some ''./output''\<rparr>\<rparr>
          (\<lambda>values. Inr ())
          (\<lambda>values. Inr \<lparr>time = \<lparr>start_time = 0, end_time = 36000, output_interval = 3600\<rparr>,
                          output_root = None\<rparr>)
         = Inl (UnsupportedFeatureError m))"
proof (intro conjI)
  let ?r = "\<lparr>time = \<lparr>start_time = 0, end_time = 36000, output_interval = 3600\<rparr>,
             output_root = Some ''./output''\<rparr>"
  let ?v = "\<lparr>hydrofabric = Some ''hydrofabric.gpkg'', catchments = None, nexus = None,
             crosswalk = None, ngen_realization = None\<rparr>"
  let ?w = "\<lparr>hydrofabric = Some ''hydrofabric.gpkg'', catchments = None, nexus = None,
             crosswalk = None, ngen_realization = Some ?r\<rparr>"
  let ?prep = "\<lambda>values :: ValidatorValues. (Inr () :: pyexn + unit)"
  let ?parse = "\<lambda>values :: ValidatorValues. (Inr ?r :: pyexn + NgenRealization)"
  let ?parse' = "\<lambda>values :: ValidatorValues.
       (Inr \<lparr>time = \<lparr>start_time = 0, end_time = 36000, output_interval = 3600\<rparr>,
             output_root = None\<rparr> :: pyexn + NgenRealization)"
  have b: "output_root ?r \<noteq> None" by simp
  have c: "validate_model ?v = Inr ?v \<and> ?prep ?v = Inr ()"
    by (simp add: validate_model_def verify_hydrofabric_def verify_ngen_realization_def)
  have p: "?parse ?v = Inr ?r" by simp
  note t = output_root_rejected [OF b, of ?v ?v True ?prep ?parse]
  note t4 = mp [OF conjunct2 [OF conjunct2 [OF conjunct2 [OF t]]] p]
  show "\<exists>m. ngen_base_init validate_assignment ?v ?prep ?parse = Inl (UnsupportedFeatureError m)"
    by (rule mp [OF conjunct2 [OF t4] c])
  have d: "ngen_realization ?w = Some ?r" by simp
  have e: "verify_hydrofabric ?w = Inr ()" by (simp add: verify_hydrofabric_def)
  note u = output_root_rejected [OF b, of ?w ?w False ?prep ?parse']
  note u2 = mp [OF conjunct1 [OF conjunct2 [OF u]] d]
  show "\<exists>m. validate_model ?w = Inl (UnsupportedFeatureError m)"
    by (rule mp [OF conjunct2 [OF u2] e])
  note u3 = mp [OF conjunct1 [OF conjunct2 [OF conjunct2 [OF u]]] d]
  show "\<exists>m. ngen_base_init False ?w ?prep ?parse' = Inl (UnsupportedFeatureError m)"
    by (rule mp [OF conjunct2 [OF u3] e])
qed

text \<open>
  Were assignments not validated, a realization file with \<open>output_root\<close> would pass the
  construction.
\<close>

lemma output_root_unvalidated_assignment:
  assumes "validate_model kwargs = Inr kwargs'" and "prepare kwargs' = Inr ()"
    and "parse kwargs' = Inr r"
  shows "ngen_base_init False kwargs prepare parse
           = Inr (kwargs'\<lparr>ngen_realization := Some r\<rparr>)"
  using assms by (simp add: ngen_base_init_def)

text \<open>
  Clearing the transient output twice is clearing it once, and a directory without a
  matching file is left as it is.
\<close>

lemma clear_nexout_idem: "clear_nexout (clear_nexout names) = clear_nexout names"
  by (simp add: clear_nexout_def)

lemma clear_nexout_none:
  assumes "\<forall>n \<in> set names. \<not> endswith n ''NEXOUT.parquet''"
  shows "clear_nexout names = names"
  using assms by (simp add: clear_nexout_def)

section \<open>Properties of the format detection\<close>

lemma str_contains_self: "str_contains s s"
  by (cases s) (simp_all add: startswith_def)

lemma str_contains_append: "str_contains (a @ s) s"
proof (induction a)
  case Nil
  show ?case by (simp add: str_contains_self)
next
  case (Cons c a)
  then show ?case by simp
qed

text \<open>
  C7, as the code has it. The factory branches on the extension and, for \<open>.csv\<close>, on
  the first line of the file, in the order of the three patterns. An unknown extension
  is a \<open>RuntimeError\<close> whose message names the extension; a header that matches none
  of the patterns is a \<open>RuntimeError\<close> whose message names the path. A parser is
  selected only by its own extension or pattern.
\<close>

theorem format_detection:
  "let ext = str_lower (path_suffix f); header = str_strip (readline (rd f)) in
   (ext \<noteq> ''.csv'' \<and> ext \<noteq> ''.nc'' \<and> ext \<noteq> ''.parquet'' \<longrightarrow>
      output_handler_factory rd f
        = Inl (RuntimeError (''unsupported t-route output filetype: '' @ path_suffix f))) \<and>
   (ext = ''.csv'' \<and> \<not> startswith header csv_v1_prefix \<and> \<not> str_contains header ''t0''
      \<and> \<not> str_contains header ''current_time'' \<longrightarrow>
      output_handler_factory rd f
        = Inl (RuntimeError (''could not parse t-route csv output file: '' @ f)) \<and>
      str_contains (''could not parse t-route csv output file: '' @ f) f) \<and>
   (\<forall>fmt. output_handler_factory rd f = Inr fmt \<longrightarrow>
      (fmt = CsvOutputV1 \<longleftrightarrow> ext = ''.csv'' \<and> startswith header csv_v1_prefix) \<and>
      (fmt = StreamOutputCsvV1 \<longleftrightarrow>
         ext = ''.csv'' \<and> \<not> startswith header csv_v1_prefix \<and> str_contains header ''t0'') \<and>
      (fmt = StreamOutputCsvV2 \<longleftrightarrow>
         ext = ''.csv'' \<and> \<not> startswith header csv_v1_prefix \<and> \<not> str_contains header ''t0''
         \<and> str_contains header ''current_time'') \<and>
      (fmt = StreamOutputNetcdfV1 \<longleftrightarrow> ext = ''.nc'') \<and>
      (fmt = StreamOutputParquetV1 \<longleftrightarrow> ext = ''.parquet''))"
proof -
  define e where "e = str_lower (path_suffix f)"
  define h where "h = str_strip (readline (rd f))"
  define a where "a = startswith h csv_v1_prefix"
  define b where "b = str_contains h ''t0''"
  define c where "c = str_contains h ''current_time''"
  have csv: "factory_handler_csv f (rd f) =
     (if a then Inr CsvOutputV1 else if b then Inr StreamOutputCsvV1
      else if c then Inr StreamOutputCsvV2
      else Inl (RuntimeError (''could not parse t-route csv output file: '' @ f)))"
    by (simp add: factory_handler_csv_def Let_def h_def a_def b_def c_def)
  have fac: "output_handler_factory rd f =
     (if e = ''.csv'' then factory_handler_csv f (rd f)
      else if e = ''.nc'' then Inr StreamOutputNetcdfV1
      else if e = ''.parquet'' then Inr StreamOutputParquetV1
      else Inl (RuntimeError (''unsupported t-route output filetype: '' @ path_suffix f)))"
    by (simp add: output_handler_factory_def Let_def e_def)
  have ne: "''.csv'' \<noteq> ''.nc''" "''.csv'' \<noteq> ''.parquet''" "''.nc'' \<noteq> ''.parquet''"
    by simp_all
  have "(e \<noteq> ''.csv'' \<and> e \<noteq> ''.nc'' \<and> e \<noteq> ''.parquet'' \<longrightarrow>
      output_handler_factory rd f
        = Inl (RuntimeError (''unsupported t-route output filetype: '' @ path_suffix f))) \<and>
   (e = ''.csv'' \<and> \<not> a \<and> \<not> b \<and> \<not> c \<longrightarrow>
      output_handler_factory rd f
        = Inl (RuntimeError (''could not parse t-route csv output file: '' @ f)) \<and>
      str_contains (''could not parse t-route csv output file: '' @ f) f) \<and>
   (\<forall>fmt. output_handler_factory rd f = Inr fmt \<longrightarrow>
      (fmt = CsvOutputV1 \<longleftrightarrow> e = ''.csv'' \<and> a) \<and>
      (fmt = StreamOutputCsvV1 \<longleftrightarrow> e = ''.csv'' \<and> \<not> a \<and> b) \<and>
      (fmt = StreamOutputCsvV2 \<longleftrightarrow> e = ''.csv'' \<and> \<not> a \<and> \<not> b \<and> c) \<and>
      (fmt = StreamOutputNetcdfV1 \<longleftrightarrow> e = ''.nc'') \<and>
      (fmt = StreamOutputParquetV1 \<longleftrightarrow> e = ''.parquet''))"
    unfolding fac csv using ne str_contains_append [of "''could not parse t-route csv output file: ''" f]
    by (auto simp del: str_contains.simps append.simps)
  then show ?thesis
    unfolding Let_def e_def h_def a_def b_def c_def .
qed

lemma suffix_txt: "path_suffix ''run/troute_output.txt'' = ''.txt''"
  by code_simp

lemma suffix_csv: "path_suffix ''flowveldepth_Ngen.csv'' = ''.csv''"
  by code_simp

lemma header_v2:
  "str_strip (readline stream_v2_text) = '',,current_time,flow,velocity,depth,nudge''"
  by code_simp

lemma header_v2_kind:
  "\<not> startswith '',,current_time,flow,velocity,depth,nudge'' csv_v1_prefix"
  "\<not> str_contains '',,current_time,flow,velocity,depth,nudge'' ''t0''"
  "str_contains '',,current_time,flow,velocity,depth,nudge'' ''current_time''"
  by code_simp+

lemma header_bad: "str_strip (readline ''id,flow'') = ''id,flow''"
  by code_simp

lemma header_bad_kind:
  "\<not> startswith ''id,flow'' csv_v1_prefix"
  "\<not> str_contains ''id,flow'' ''t0''"
  "\<not> str_contains ''id,flow'' ''current_time''"
  by code_simp+

theorem format_detection_witness:
  "output_handler_factory (\<lambda>p. []) ''run/troute_output.txt''
     = Inl (RuntimeError ''unsupported t-route output filetype: .txt'') \<and>
   output_handler_factory (\<lambda>p. ''id,flow'') ''flowveldepth_Ngen.csv''
     = Inl (RuntimeError ''could not parse t-route csv output file: flowveldepth_Ngen.csv'') \<and>
   output_handler_factory (\<lambda>p. stream_v2_text) ''flowveldepth_Ngen.csv''
     = Inr StreamOutputCsvV2 \<and>
   str_contains (str_strip (readline stream_v2_text)) ''current_time''"
proof (intro conjI)
  have l: "str_lower ''.txt'' = ''.txt''" "str_lower ''.csv'' = ''.csv''"
    by code_simp+
  show "output_handler_factory (\<lambda>p. []) ''run/troute_output.txt''
     = Inl (RuntimeError ''unsupported t-route output filetype: .txt'')"
    using format_detection [of "''run/troute_output.txt''" "\<lambda>p. []"]
    by (simp add: Let_def suffix_txt l del: str_contains.simps)
  show "output_handler_factory (\<lambda>p. ''id,flow'') ''flowveldepth_Ngen.csv''
     = Inl (RuntimeError ''could not parse t-route csv output file: flowveldepth_Ngen.csv'')"
    using format_detection [of "''flowveldepth_Ngen.csv''" "\<lambda>p. ''id,flow''"]
    by (simp add: Let_def suffix_csv l header_bad header_bad_kind del: str_contains.simps)
  show e: "output_handler_factory (\<lambda>p. stream_v2_text) ''flowveldepth_Ngen.csv''
     = Inr StreamOutputCsvV2"
    by code_simp
  show "str_contains (str_strip (readline stream_v2_text)) ''current_time''"
    using format_detection [of "''flowveldepth_Ngen.csv''" "\<lambda>p. stream_v2_text"] e
    by (simp add: Let_def del: str_contains.simps)
qed

lemma factory_txt:
  "output_handler_factory (\<lambda>p. []) ''run/troute_output.txt''
     = Inl (RuntimeError ''unsupported t-route output filetype: .txt'')"
  by (simp add: output_handler_factory_def suffix_txt) code_simp

text \<open>
  C7 as the specification words it fails: the message for an unknown extension does not
  name the path.
\<close>

theorem unknown_extension_message_counterexample:
  "output_handler_factory (\<lambda>p. []) ''run/troute_output.txt''
     = Inl (RuntimeError ''unsupported t-route output filetype: .txt'') \<and>
   \<not> str_contains ''unsupported t-route output filetype: .txt'' ''run/troute_output.txt''"
proof
  show "output_handler_factory (\<lambda>p. []) ''run/troute_output.txt''
     = Inl (RuntimeError ''unsupported t-route output filetype: .txt'')"
    by (rule factory_txt)
  show "\<not> str_contains ''unsupported t-route output filetype: .txt'' ''run/troute_output.txt''"
    by code_simp
qed

section \<open>Properties of the extraction\<close>

text \<open>
  C10. When the hook is configured, the routing output file does not exist and no
  validation output file is configured and present, \<open>get_output\<close> returns \<open>None\<close>
  for every nexus.
\<close>

theorem missing_output_gives_none:
  assumes "hook_realization self \<noteq> None"
    and "\<not> exists fs (output_file self)"
    and "settings self = None \<or> \<not> exists fs (validation_routing_output (the (settings self)))"
  shows "get_output fs self nex = Inr None"
proof -
  have "select_output fs self = Inr None"
    using assms(2,3) by (auto simp: select_output_def)
  then show ?thesis
    using assms(1) by (auto simp: get_output_def)
qed

lemma no_files_missing:
  "hook_realization default_hook \<noteq> None"
  "\<not> exists no_files (output_file default_hook)"
  "settings default_hook = None
     \<or> \<not> exists no_files (validation_routing_output (the (settings default_hook)))"
  by (simp_all add: default_hook_def no_files_def)

theorem missing_output_gives_none_witness:
  "get_output no_files default_hook three_nexus = Inr None"
  by (rule missing_output_gives_none [OF no_files_missing])



















lemma nan_add_None [simp]: "nan_add None b = None"
  by (cases b) simp_all










lemma hour_floor_mono: "s \<le> t \<Longrightarrow> hour_floor s \<le> hour_floor t"
  by (simp add: hour_floor_def zdiv_mono1)






























text \<open>
  On an index that is not in increasing order the slice is cut by position, or fails:
  \<open>get_output\<close> then raises the \<open>KeyError\<close> of the slice.
\<close>

lemma loc_slice_unordered:
  "loc_slice 2 6 [(1, Some (1 :: int)), (5, Some 2), (3, Some 3), (2, Some 9), (7, None)]
     = Inl (KeyError ''6'') \<and>
   loc_slice 2 5 [(1, Some (1 :: int)), (5, Some 2), (3, Some 3), (2, Some 9), (7, None)]
     = Inr []"
  by code_simp

section \<open>Properties of the routing time step\<close>










lemma date_range_right_len_pos:
  assumes "0 < (stop - start) div f" and "0 < f"
  shows "date_range_right_len start stop f = (stop - start) div f"
proof -
  have "start \<noteq> stop" using assms(1) by auto
  then show ?thesis using assms(1) by (simp add: date_range_right_len_def)
qed













text \<open>
  The quotient of the rows by the intervals is a float: ten rows over thirty intervals give
  a ratio that is not exactly one third, and the assertion fails although 10800 s would
  divide the window evenly.
\<close>

lemma routing_timestep_inexact_ratio:
  "routing_timestep_size_s 10 thirty_hours
     = Inl (AssertionError ''routing timestep is not evenly divisible by ngen_timesteps'')"
  by code_simp

text \<open>
  A window of no length has one output interval for \<open>date_range\<close>, its single point, and
  a result is returned for it.
\<close>

lemma routing_timestep_empty_window:
  "routing_timestep_size_s 4
     \<lparr>time = \<lparr>start_time = 0, end_time = 0, output_interval = 3600\<rparr>, output_root = None\<rparr>
   = Inr 900"
  by code_simp

section \<open>Properties of the parameter table\<close>

lemma model_rows_index: "map row_p (model_rows k v) = map row_param (model_rows k v)"
  by (simp add: model_rows_def)

lemma model_rows_row: "r \<in> set (model_rows k v) \<Longrightarrow> row_p r = row_param r"
  by (auto simp: model_rows_def)

lemma model_rows_keys:
  "map (\<lambda>r. (row_model r, row_param r)) (model_rows k v) = map (\<lambda>s. (k, par_name s)) v"
  by (simp add: model_rows_def comp_def)

lemma all_rows_index:
  "map row_p (concat (map (\<lambda>(k, v). model_rows k v) params))
     = map row_param (concat (map (\<lambda>(k, v). model_rows k v) params))"
  by (induction params) (auto simp: model_rows_row)

lemma all_rows_keys:
  "map (\<lambda>r. (row_model r, row_param r)) (concat (map (\<lambda>(k, v). model_rows k v) params))
     = concat (map (\<lambda>(k, v). map (\<lambda>s. (k, par_name s)) v) params)"
  by (induction params) (auto simp: model_rows_keys)

lemma keys_fst:
  "x \<in> set (concat (map (\<lambda>(k, v). map (\<lambda>s. (k, par_name s)) v) params))
     \<Longrightarrow> fst x \<in> fst ` set params"
  by (induction params) auto

lemma keys_distinct:
  assumes "distinct (map fst params)"
    and "\<forall>(k, v) \<in> set params. distinct (map par_name v)"
  shows "distinct (concat (map (\<lambda>(k, v). map (\<lambda>s. (k, par_name s)) v) params))"
  using assms
proof (induction params)
  case Nil
  show ?case by simp
next
  case (Cons kv params)
  obtain k v where kv: "kv = (k, v)" by (cases kv)
  have k: "k \<notin> fst ` set params" using Cons.prems(1) kv by simp
  have d: "distinct (map (\<lambda>s. (k, par_name s)) v)"
    using Cons.prems(2) kv by (simp add: distinct_map inj_on_def)
  have r: "distinct (concat (map (\<lambda>(k, v). map (\<lambda>s. (k, par_name s)) v) params))"
    using Cons by simp
  have "set (map (\<lambda>s. (k, par_name s)) v)
          \<inter> set (concat (map (\<lambda>(k, v). map (\<lambda>s. (k, par_name s)) v) params)) = {}"
    using k keys_fst [of _ params] by fastforce
  then show ?case using d r kv by simp
qed

lemma params_as_df_all:
  assumes "params_as_df params None = Inr df"
  shows "df = concat (map (\<lambda>(k, v). model_rows k v) params)"
  using assms by (simp add: params_as_df_def Let_def split: if_splits)

lemma params_as_df_named_index:
  assumes "params_as_df params (Some m) = Inr df"
  shows "map row_p df = map row_param df"
proof (cases "m = []")
  case True
  then have "params_as_df params None = Inr df"
    using assms by (simp add: params_as_df_def)
  from params_as_df_all [OF this] show ?thesis by (simp add: all_rows_index)
next
  case False
  then show ?thesis using assms by (auto simp: params_as_df_def Let_def model_rows_row)
qed

lemma collect_all:
  assumes "collect rs = Inr xs"
  shows "rs = map Inr xs"
  using assms
proof (induction rs arbitrary: xs)
  case Nil
  then show ?case by simp
next
  case (Cons r rs)
  then show ?case by (cases r) (auto split: sum.splits)
qed

lemma map_params_index:
  assumes "map_params_to_realization params m = Inr df"
  shows "map row_p df = map row_param df"
proof (cases m)
  case (SingleModel n)
  then show ?thesis using assms params_as_df_named_index [of params n df]
    by (simp add: map_params_to_realization_def)
next
  case (MultiBMI ms)
  from assms MultiBMI obtain dfs where
    c: "collect (map (\<lambda>m. params_as_df params (Some m)) ms) = Inr dfs" and df: "df = concat dfs"
    by (auto simp: map_params_to_realization_def split: sum.splits if_splits)
  have "\<forall>d \<in> set dfs. map row_p d = map row_param d"
  proof
    fix d assume "d \<in> set dfs"
    then have "Inr d \<in> set (map (\<lambda>m. params_as_df params (Some m)) ms)"
      using collect_all [OF c] by simp
    then obtain n where "params_as_df params (Some n) = Inr d" by auto
    then show "map row_p d = map row_param d" by (rule params_as_df_named_index)
  qed
  then show ?thesis unfolding df by (induction dfs) auto
qed

text \<open>
  C1, as the code has it. In the table built from all models the index label of a row is
  the name of its parameter alone; the model of the row is kept in the column \<open>model\<close>.
  The rows are one for each declared parameter, in the order of the mapping, so with
  distinct model names and distinct parameter names within a model the pairs of model and
  parameter tell all rows apart. The label is the parameter name in the table of a
  realization too.
\<close>

theorem parameter_table_index:
  assumes "params_as_df params None = Inr df"
  shows "map row_p df = map row_param df \<and>
         map (\<lambda>r. (row_model r, row_param r)) df
           = concat (map (\<lambda>(k, v). map (\<lambda>s. (k, par_name s)) v) params) \<and>
         (distinct (map fst params) \<and> (\<forall>(k, v) \<in> set params. distinct (map par_name v))
            \<longrightarrow> distinct (map (\<lambda>r. (row_model r, row_param r)) df)) \<and>
         (\<forall>m df'. map_params_to_realization params m = Inr df'
            \<longrightarrow> map row_p df' = map row_param df')"
proof -
  note e = params_as_df_all [OF assms]
  show ?thesis
    unfolding e all_rows_keys
    using all_rows_index [of params] keys_distinct [of params] map_params_index [of params]
    by blast
qed

lemma shared_name_table: "params_as_df shared_name None = Inr shared_name_df"
  by code_simp

lemma shared_name_multi:
  "map_params_to_realization shared_name (MultiBMI [''NoahOWP'', ''SLOTH'', ''CFE''])
     = Inr [shared_name_df ! 2, shared_name_df ! 0, shared_name_df ! 1]"
  by code_simp

theorem parameter_table_index_witness:
  "params_as_df shared_name None = Inr shared_name_df \<and>
   map row_p shared_name_df = map row_param shared_name_df \<and>
   distinct (map (\<lambda>r. (row_model r, row_param r)) shared_name_df) \<and>
   map row_p [shared_name_df ! 2, shared_name_df ! 0, shared_name_df ! 1]
     = map row_param [shared_name_df ! 2, shared_name_df ! 0, shared_name_df ! 1]"
proof -
  note t = parameter_table_index [OF shared_name_table]
  have d: "distinct (map fst shared_name)
             \<and> (\<forall>(k, v) \<in> set shared_name. distinct (map par_name v))"
    by (simp add: shared_name_def)
  have a: "distinct (map (\<lambda>r. (row_model r, row_param r)) shared_name_df)"
    by (rule mp [OF conjunct1 [OF conjunct2 [OF conjunct2 [OF t]]] d])
  have b: "map row_p [shared_name_df ! 2, shared_name_df ! 0, shared_name_df ! 1]
     = map row_param [shared_name_df ! 2, shared_name_df ! 0, shared_name_df ! 1]"
    by (rule mp [OF spec [OF spec [OF conjunct2 [OF conjunct2 [OF conjunct2 [OF t]]]]]
          shared_name_multi])
  show ?thesis using shared_name_table conjunct1 [OF t] a b by (intro conjI)
qed

text \<open>
  C1 as the specification words it fails: two models that declare \<open>maxsmc\<close> give two
  rows with the same index label, and the selection by that label returns both.
\<close>

theorem parameter_index_not_composite_counterexample:
  "params_as_df shared_name None
     = Inr [\<lparr>row_p = ''maxsmc'', row_param = ''maxsmc'', row_model = ''CFE'',
              row_attrs = (0.2, 0.6)\<rparr>,
            \<lparr>row_p = ''satdk'', row_param = ''satdk'', row_model = ''CFE'',
              row_attrs = (0, 1)\<rparr>,
            \<lparr>row_p = ''maxsmc'', row_param = ''maxsmc'', row_model = ''NoahOWP'',
              row_attrs = (0.1, 0.9)\<rparr>] \<and>
   row_p \<lparr>row_p = ''maxsmc'', row_param = ''maxsmc'', row_model = ''CFE'',
          row_attrs = (0.2 :: real, 0.6 :: real)\<rparr>
     = row_p \<lparr>row_p = ''maxsmc'', row_param = ''maxsmc'', row_model = ''NoahOWP'',
              row_attrs = (0.1 :: real, 0.9 :: real)\<rparr> \<and>
   rows_at shared_name_df ''maxsmc''
     = [\<lparr>row_p = ''maxsmc'', row_param = ''maxsmc'', row_model = ''CFE'',
         row_attrs = (0.2, 0.6)\<rparr>,
        \<lparr>row_p = ''maxsmc'', row_param = ''maxsmc'', row_model = ''NoahOWP'',
         row_attrs = (0.1, 0.9)\<rparr>]"
proof (intro conjI)
  show "params_as_df shared_name None
     = Inr [\<lparr>row_p = ''maxsmc'', row_param = ''maxsmc'', row_model = ''CFE'',
              row_attrs = (0.2, 0.6)\<rparr>,
            \<lparr>row_p = ''satdk'', row_param = ''satdk'', row_model = ''CFE'',
              row_attrs = (0, 1)\<rparr>,
            \<lparr>row_p = ''maxsmc'', row_param = ''maxsmc'', row_model = ''NoahOWP'',
              row_attrs = (0.1, 0.9)\<rparr>]"
    using shared_name_table unfolding shared_name_df_def .
  show "row_p \<lparr>row_p = ''maxsmc'', row_param = ''maxsmc'', row_model = ''CFE'',
          row_attrs = (0.2 :: real, 0.6 :: real)\<rparr>
     = row_p \<lparr>row_p = ''maxsmc'', row_param = ''maxsmc'', row_model = ''NoahOWP'',
              row_attrs = (0.1 :: real, 0.9 :: real)\<rparr>"
    by simp
  show "rows_at shared_name_df ''maxsmc''
     = [\<lparr>row_p = ''maxsmc'', row_param = ''maxsmc'', row_model = ''CFE'',
         row_attrs = (0.2, 0.6)\<rparr>,
        \<lparr>row_p = ''maxsmc'', row_param = ''maxsmc'', row_model = ''NoahOWP'',
         row_attrs = (0.1, 0.9)\<rparr>]"
    by (simp add: rows_at_def shared_name_df_def)
qed


section \<open>Properties of the target construction\<close>

lemma independent_scan_candidates:
  assumes "independent_scan hf params g cs = Inr (cands, adj)"
  shows "map nexus_id cands
           = map snd (filter (\<lambda>(i, toid). lookup_gage (x_walk hf) i \<noteq> None) cs)
         \<and> map adj_id adj = map fst cs"
  using assms
proof (induction cs arbitrary: cands adj)
  case Nil
  then show ?case by simp
next
  case (Cons c cs)
  obtain i toid where c: "c = (i, toid)" by (cases c)
  from Cons.prems c obtain geom ps cands' adj' where
    geom: "map_of (nexus_hydro_fabric hf) toid = Some geom"
    and ps: "map_params_to_realization params g = Inr ps"
    and rest: "independent_scan hf params g cs = Inr (cands', adj')"
    by (auto simp: Let_def split: option.splits sum.splits)
  note ih = Cons.IH [OF rest]
  show ?case
  proof (cases "lookup_gage (x_walk hf) i")
    case None
    then have "cands = cands'" "map adj_id adj = i # map adj_id adj'"
      using Cons.prems c geom ps rest by (auto simp: Let_def)
    then show ?thesis using ih None c by simp
  next
    case (Some gage)
    then have "cands = gauged_nexus toid gage geom [i] # cands'"
      "map adj_id adj = i # map adj_id adj'"
      using Cons.prems c geom ps rest by (auto simp: Let_def)
    then show ?thesis using ih Some c by (simp add: gauged_nexus_def)
  qed
qed

lemma build_gauged_stations:
  assumes "build_gauged_hyfeatures_nexuses divides nexuses xw = Inr ns"
  shows "map (\<lambda>n. map_option station_id (hydro_location n)) ns = map (\<lambda>e. Some (snd e)) xw"
  using assms
proof (induction xw arbitrary: ns)
  case Nil
  then show ?case by simp
next
  case (Cons e xw)
  obtain wb gage where e: "e = (wb, gage)" by (cases e)
  from Cons.prems e obtain nex geom ns' where
    "build_gauged_hyfeatures_nexuses divides nexuses xw = Inr ns'"
    "ns = gauged_nexus nex gage geom
            (map fst (filter (\<lambda>(ident, toid). toid = nex) divides)) # ns'"
    by (auto split: option.splits sum.splits)
  then show ?case using Cons.IH [of ns'] e by (simp add: gauged_nexus_def)
qed

lemma ngen_independent_check:
  assumes "independent_candidates hf ef params g = Inr (cands, adj)"
  shows "(length cands \<noteq> 1 \<longrightarrow> ngen_independent hf ef params g = Inl single_nexus_required) \<and>
         (length cands = 1 \<longrightarrow>
            ngen_independent hf ef params g = Inr [CalibrationSet adj (hd cands)])"
  using assms by (simp add: ngen_independent_def)

lemma ngen_uniform_check:
  assumes "uniform_candidates hf ef = Inr cands"
  shows "(length cands \<noteq> 1 \<longrightarrow> ngen_uniform hf ef params = Inl single_nexus_required) \<and>
         (length cands = 1 \<longrightarrow>
            (\<forall>ps. params_as_df params None = Inr ps \<longrightarrow>
               ngen_uniform hf ef params = Inr [UniformCalibrationSet (hd cands) ps]))"
  using assms by (simp add: ngen_uniform_def)

lemma ngen_independent_one:
  assumes "ngen_independent hf ef params g = Inr ts"
  shows "\<exists>cands adj. independent_candidates hf ef params g = Inr (cands, adj) \<and>
           length cands = 1 \<and> ts = [CalibrationSet adj (hd cands)]"
  using assms by (auto simp: ngen_independent_def split: sum.splits if_splits)

lemma ngen_uniform_one:
  assumes "ngen_uniform hf ef params = Inr ts"
  shows "\<exists>cands ps. uniform_candidates hf ef = Inr cands \<and> length cands = 1 \<and>
           ts = [UniformCalibrationSet (hd cands) ps]"
  using assms by (auto simp: ngen_uniform_def split: sum.splits if_splits)

text \<open>
  C2, as the code has it. The independent and the uniform strategy build a list of
  candidate nexuses, filter it when \<open>eval_feature\<close> is set, and require that exactly one
  entry is left: with none or several they raise the \<open>RuntimeError\<close>, with one they
  append one calibration set whose evaluation nexus is that entry (for the uniform
  strategy, when the parameter table can be built), and whenever they return they return
  exactly one target. Without \<open>eval_feature\<close> the candidates are one for every catchment
  with a gauge (independent) and one for every entry of the crosswalk (uniform).
\<close>

theorem single_evaluation_nexus:
  "(\<forall>cands adj. independent_candidates hf ef params g = Inr (cands, adj) \<longrightarrow>
      (length cands \<noteq> 1 \<longrightarrow> ngen_independent hf ef params g = Inl single_nexus_required) \<and>
      (length cands = 1 \<longrightarrow>
         ngen_independent hf ef params g = Inr [CalibrationSet adj (hd cands)])) \<and>
   (\<forall>cands. uniform_candidates hf ef = Inr cands \<longrightarrow>
      (length cands \<noteq> 1 \<longrightarrow> ngen_uniform hf ef params = Inl single_nexus_required) \<and>
      (length cands = 1 \<longrightarrow>
         (\<forall>ps. params_as_df params None = Inr ps \<longrightarrow>
            ngen_uniform hf ef params = Inr [UniformCalibrationSet (hd cands) ps]))) \<and>
   (\<forall>ts. ngen_independent hf ef params g = Inr ts \<longrightarrow>
      (\<exists>cands adj. independent_candidates hf ef params g = Inr (cands, adj) \<and>
         length cands = 1 \<and> ts = [CalibrationSet adj (hd cands)])) \<and>
   (\<forall>ts. ngen_uniform hf ef params = Inr ts \<longrightarrow>
      (\<exists>cands ps. uniform_candidates hf ef = Inr cands \<and> length cands = 1 \<and>
         ts = [UniformCalibrationSet (hd cands) ps])) \<and>
   (\<not> set_feature ef \<longrightarrow>
      (\<forall>cands adj. independent_candidates hf ef params g = Inr (cands, adj) \<longrightarrow>
         map nexus_id cands
           = map snd (filter (\<lambda>(i, toid). lookup_gage (x_walk hf) i \<noteq> None)
                        (catchment_hydro_fabric hf))) \<and>
      (\<forall>cands. uniform_candidates hf ef = Inr cands \<longrightarrow>
         map (\<lambda>n. map_option station_id (hydro_location n)) cands
           = map (\<lambda>e. Some (snd e)) (x_walk hf)))"
proof (intro conjI allI impI)
  fix cands adj
  assume a: "independent_candidates hf ef params g = Inr (cands, adj)"
  { assume "length cands \<noteq> 1"
    then show "ngen_independent hf ef params g = Inl single_nexus_required"
      using ngen_independent_check [OF a] by blast }
  { assume "length cands = 1"
    then show "ngen_independent hf ef params g = Inr [CalibrationSet adj (hd cands)]"
      using ngen_independent_check [OF a] by blast }
next
  fix cands
  assume a: "uniform_candidates hf ef = Inr cands"
  { assume "length cands \<noteq> 1"
    then show "ngen_uniform hf ef params = Inl single_nexus_required"
      using ngen_uniform_check [OF a] by blast }
  { fix ps assume "length cands = 1" "params_as_df params None = Inr ps"
    then show "ngen_uniform hf ef params = Inr [UniformCalibrationSet (hd cands) ps]"
      using ngen_uniform_check [OF a, of params] by blast }
next
  fix ts assume "ngen_independent hf ef params g = Inr ts"
  then show "\<exists>cands adj. independent_candidates hf ef params g = Inr (cands, adj) \<and>
         length cands = 1 \<and> ts = [CalibrationSet adj (hd cands)]"
    by (rule ngen_independent_one)
next
  fix ts assume "ngen_uniform hf ef params = Inr ts"
  then show "\<exists>cands ps. uniform_candidates hf ef = Inr cands \<and> length cands = 1 \<and>
         ts = [UniformCalibrationSet (hd cands) ps]"
    by (rule ngen_uniform_one)
next
  fix cands adj
  assume f: "\<not> set_feature ef"
    and a: "independent_candidates hf ef params g = Inr (cands, adj)"
  then have "independent_scan hf params g (catchment_hydro_fabric hf) = Inr (cands, adj)"
    by (auto simp: independent_candidates_def split: sum.splits)
  from independent_scan_candidates [OF this]
  show "map nexus_id cands
           = map snd (filter (\<lambda>(i, toid). lookup_gage (x_walk hf) i \<noteq> None)
                        (catchment_hydro_fabric hf))" ..
next
  fix cands
  assume f: "\<not> set_feature ef" and a: "uniform_candidates hf ef = Inr cands"
  then have "build_gauged_hyfeatures_nexuses (catchment_hydro_fabric hf)
               (nexus_hydro_fabric hf) (x_walk hf) = Inr cands"
    by (auto simp: uniform_candidates_def split: sum.splits)
  then show "map (\<lambda>n. map_option station_id (hydro_location n)) cands
           = map (\<lambda>e. Some (snd e)) (x_walk hf)"
    by (rule build_gauged_stations)
qed

lemma one_gauge_independent:
  "independent_candidates one_gauge None cfe_params (SingleModel ''CFE'')
     = Inr ([gauged_2], [member ''cat-1'' ungauged_1, member ''cat-2'' gauged_2])"
  by code_simp

lemma two_gauges_independent:
  "independent_candidates two_gauges None cfe_params (SingleModel ''CFE'')
     = Inr ([gauged_1, gauged_2], [member ''cat-1'' gauged_1, member ''cat-2'' gauged_2])"
  by code_simp

lemma one_gauge_uniform: "uniform_candidates one_gauge None = Inr [gauged_2]"
  by code_simp

lemma two_gauges_uniform: "uniform_candidates two_gauges None = Inr [gauged_1, gauged_2]"
  by code_simp

lemma cfe_table: "params_as_df cfe_params None = Inr [cfe_row]"
  by code_simp

lemma two_gauges_picked:
  "independent_candidates two_gauges (Some ''wb-2'') cfe_params (SingleModel ''CFE'')
     = Inr ([gauged_2], [member ''cat-1'' gauged_1, member ''cat-2'' gauged_2])"
  by code_simp

lemma two_gauges_found: "uniform_candidates two_gauges (Some ''wb-2'') = Inr [gauged_2]"
  by code_simp

lemma no_feature: "\<not> set_feature None"
  by (simp add: set_feature_def)

theorem single_evaluation_nexus_witness:
  "ngen_independent two_gauges None cfe_params (SingleModel ''CFE'')
     = Inl single_nexus_required \<and>
   ngen_uniform two_gauges None cfe_params = Inl single_nexus_required \<and>
   ngen_independent one_gauge None cfe_params (SingleModel ''CFE'')
     = Inr [CalibrationSet [member ''cat-1'' ungauged_1, member ''cat-2'' gauged_2] gauged_2] \<and>
   ngen_uniform one_gauge None cfe_params = Inr [UniformCalibrationSet gauged_2 [cfe_row]] \<and>
   ngen_independent two_gauges (Some ''wb-2'') cfe_params (SingleModel ''CFE'')
     = Inr [CalibrationSet [member ''cat-1'' gauged_1, member ''cat-2'' gauged_2] gauged_2] \<and>
   ngen_uniform two_gauges (Some ''wb-2'') cfe_params
     = Inr [UniformCalibrationSet gauged_2 [cfe_row]] \<and>
   (\<exists>cands ps. uniform_candidates one_gauge None = Inr cands \<and> length cands = 1 \<and>
      [UniformCalibrationSet gauged_2 [cfe_row]] = [UniformCalibrationSet (hd cands) ps]) \<and>
   (\<exists>cands adj.
      independent_candidates one_gauge None cfe_params (SingleModel ''CFE'')
        = Inr (cands, adj) \<and> length cands = 1 \<and>
      [CalibrationSet [member ''cat-1'' ungauged_1, member ''cat-2'' gauged_2] gauged_2]
        = [CalibrationSet adj (hd cands)]) \<and>
   map nexus_id [gauged_1, gauged_2]
     = map snd (filter (\<lambda>(i, toid). lookup_gage (x_walk two_gauges) i \<noteq> None)
                  (catchment_hydro_fabric two_gauges)) \<and>
   map (\<lambda>n. map_option station_id (hydro_location n)) [gauged_1, gauged_2]
     = map (\<lambda>e. Some (snd e)) (x_walk two_gauges)"
proof (intro conjI)
  note t2 = single_evaluation_nexus [of two_gauges None cfe_params "SingleModel ''CFE''"]
  note t1 = single_evaluation_nexus [of one_gauge None cfe_params "SingleModel ''CFE''"]
  note tf = single_evaluation_nexus
    [of two_gauges "Some ''wb-2''" cfe_params "SingleModel ''CFE''"]
  have l2: "length [gauged_1, gauged_2] \<noteq> 1" by simp
  have l1: "length [gauged_2] = 1" by simp
  note i2 = mp [OF spec [OF spec [OF conjunct1 [OF t2]]] two_gauges_independent]
  show "ngen_independent two_gauges None cfe_params (SingleModel ''CFE'')
     = Inl single_nexus_required"
    by (rule mp [OF conjunct1 [OF i2] l2])
  note u2 = mp [OF spec [OF conjunct1 [OF conjunct2 [OF t2]]] two_gauges_uniform]
  show "ngen_uniform two_gauges None cfe_params = Inl single_nexus_required"
    by (rule mp [OF conjunct1 [OF u2] l2])
  note i1 = mp [OF spec [OF spec [OF conjunct1 [OF t1]]] one_gauge_independent]
  show r1: "ngen_independent one_gauge None cfe_params (SingleModel ''CFE'')
     = Inr [CalibrationSet [member ''cat-1'' ungauged_1, member ''cat-2'' gauged_2] gauged_2]"
    using mp [OF conjunct2 [OF i1] l1] by simp
  note u1 = mp [OF spec [OF conjunct1 [OF conjunct2 [OF t1]]] one_gauge_uniform]
  show r2: "ngen_uniform one_gauge None cfe_params
     = Inr [UniformCalibrationSet gauged_2 [cfe_row]]"
    using mp [OF spec [OF mp [OF conjunct2 [OF u1] l1]] cfe_table] by simp
  note fi = mp [OF spec [OF spec [OF conjunct1 [OF tf]]] two_gauges_picked]
  show "ngen_independent two_gauges (Some ''wb-2'') cfe_params (SingleModel ''CFE'')
     = Inr [CalibrationSet [member ''cat-1'' gauged_1, member ''cat-2'' gauged_2] gauged_2]"
    using mp [OF conjunct2 [OF fi] l1] by simp
  note fu = mp [OF spec [OF conjunct1 [OF conjunct2 [OF tf]]] two_gauges_found]
  show "ngen_uniform two_gauges (Some ''wb-2'') cfe_params
     = Inr [UniformCalibrationSet gauged_2 [cfe_row]]"
    using mp [OF spec [OF mp [OF conjunct2 [OF fu] l1]] cfe_table] by simp
  note rest1 = conjunct2 [OF conjunct2 [OF t1]]
  show "\<exists>cands ps. uniform_candidates one_gauge None = Inr cands \<and> length cands = 1 \<and>
      [UniformCalibrationSet gauged_2 [cfe_row]] = [UniformCalibrationSet (hd cands) ps]"
    by (rule mp [OF spec [OF conjunct1 [OF conjunct2 [OF rest1]]] r2])
  show "\<exists>cands adj.
      independent_candidates one_gauge None cfe_params (SingleModel ''CFE'')
        = Inr (cands, adj) \<and> length cands = 1 \<and>
      [CalibrationSet [member ''cat-1'' ungauged_1, member ''cat-2'' gauged_2] gauged_2]
        = [CalibrationSet adj (hd cands)]"
    by (rule mp [OF spec [OF conjunct1 [OF rest1]] r1])
  note last2 = mp [OF conjunct2 [OF conjunct2 [OF conjunct2 [OF conjunct2 [OF t2]]]] no_feature]
  show "map nexus_id [gauged_1, gauged_2]
     = map snd (filter (\<lambda>(i, toid). lookup_gage (x_walk two_gauges) i \<noteq> None)
                  (catchment_hydro_fabric two_gauges))"
    by (rule mp [OF spec [OF spec [OF conjunct1 [OF last2]]] two_gauges_independent])
  show "map (\<lambda>n. map_option station_id (hydro_location n)) [gauged_1, gauged_2]
     = map (\<lambda>e. Some (snd e)) (x_walk two_gauges)"
    by (rule mp [OF spec [OF conjunct2 [OF last2]] two_gauges_uniform])
qed

text \<open>
  C2 as the specification words it fails for the explicit strategy: with two calibrated
  catchments that have a gauge it returns two targets with two evaluation nexuses, and
  with none it returns no target; it raises in neither case.
\<close>

theorem explicit_many_targets_counterexample:
  "ngen_explicit two_gauges_by_catchment both_calibrated
     = Inr [CalibrationCatchment ''cat-1'' gauged_1 [cfe_row],
            CalibrationCatchment ''cat-2'' gauged_2 [cfe_row]] \<and>
   nexus_id gauged_1 \<noteq> nexus_id gauged_2 \<and>
   ngen_explicit one_gauge ([] :: (string \<times> unit CatchmentRealization) list) = Inr []"
proof (intro conjI)
  show "ngen_explicit two_gauges_by_catchment both_calibrated
     = Inr [CalibrationCatchment ''cat-1'' gauged_1 [cfe_row],
            CalibrationCatchment ''cat-2'' gauged_2 [cfe_row]]"
    by code_simp
  show "nexus_id gauged_1 \<noteq> nexus_id gauged_2"
    by (simp add: gauged_1_def gauged_2_def gauged_nexus_def)
  show "ngen_explicit one_gauge ([] :: (string \<times> unit CatchmentRealization) list) = Inr []"
    by simp
qed


text \<open>
  The candidates are counted by entry, not by nexus: two gauged flowpaths that flow to one
  nexus are two candidates, and the construction raises.
\<close>

lemma shared_nexus_two_candidates:
  "ngen_uniform shared_nexus None cfe_params = Inl single_nexus_required \<and>
   ngen_independent shared_nexus None cfe_params (SingleModel ''CFE'')
     = Inl single_nexus_required"
  by code_simp


end
